theory Spec2Isabelle
  imports
    Complex_Main
    "HOL-Library.Sublist"
    "HOL-Library.AList"
    "HOL-Library.Char_ord"
    "HOL-Library.List_Lexorder"
begin

section \<open>The WAM fuel price scraper\<close>

text \<open>
  A shallow embedding of \<^verbatim>\<open>src/server/services/wam_fuel_scraper.py\<close>.

  Conventions of the model.
  \<^item> A Python \<^verbatim>\<open>str\<close> is a \<open>string\<close>; each \<open>char\<close> stands for the code point of
    the same number, so the texts covered are those over U+0000..U+00FF (Latin-1).
    The character classes below are Python's, restricted to that range.
  \<^item> A Python \<^verbatim>\<open>float\<close> that comes out of \<^verbatim>\<open>float(word)\<close> is the exact decimal value
    of \<^verbatim>\<open>word\<close> as a \<open>rat\<close>. The strings that reach \<^verbatim>\<open>float\<close> are at most 100
    characters of digits with at most one point, so the rounding to the nearest double
    neither overflows nor underflows: the double is zero exactly when the decimal is.
  \<^item> An exception is a value of type \<open>error\<close>, a fallible step returns \<open>error + 'a\<close>.
  \<^item> The network, the clock and the environment variable are parameters (\<open>env\<close>); the
    requests a run performs are threaded through as a list, oldest first.
  \<^item> A parsed page is seen through the selectors the code applies to it.
  \<^item> Logging is left out.
\<close>

subsection \<open>Python's string primitives\<close>

datatype error = RequestException | ValueError | AttributeError

definition cp :: "char \<Rightarrow> nat" where
  "cp c = of_char c"

text \<open>\<^verbatim>\<open>str.lower\<close>: A..Z and the Latin-1 capitals U+00C0..U+00DE (but U+00D7, the
  multiplication sign) move up by 32.\<close>

definition lower_char :: "char \<Rightarrow> char" where
  "lower_char c =
     (if (65 \<le> cp c \<and> cp c \<le> 90) \<or> (192 \<le> cp c \<and> cp c \<le> 222 \<and> cp c \<noteq> 215)
      then char_of (cp c + 32) else c)"

definition py_lower :: "string \<Rightarrow> string" where
  "py_lower s = map lower_char s"

text \<open>\<^verbatim>\<open>str.isspace\<close> on one character: TAB, LF, VT, FF, CR, FS, GS, RS, US, space,
  NEL and the no-break space.\<close>

definition py_isspace :: "char \<Rightarrow> bool" where
  "py_isspace c = (cp c \<in> {9, 10, 11, 12, 13, 28, 29, 30, 31, 32, 133, 160})"

text \<open>The decimal digits: what \<^verbatim>\<open>\d\<close> matches and what \<^verbatim>\<open>float\<close> reads.\<close>

definition is_decimal :: "char \<Rightarrow> bool" where
  "is_decimal c = (48 \<le> cp c \<and> cp c \<le> 57)"

text \<open>\<^verbatim>\<open>str.isdigit\<close> on one character: the decimal digits and the superscripts
  two, three and one (U+00B2, U+00B3, U+00B9), which are digits but not decimals.\<close>

definition isdigit_char :: "char \<Rightarrow> bool" where
  "isdigit_char c = (is_decimal c \<or> cp c \<in> {178, 179, 185})"

definition py_isdigit :: "string \<Rightarrow> bool" where
  "py_isdigit s = (s \<noteq> [] \<and> list_all isdigit_char s)"

text \<open>\<^verbatim>\<open>s.find(sub)\<close>: the least index where \<open>sub\<close> starts, or -1.\<close>

fun py_find :: "string \<Rightarrow> string \<Rightarrow> int" where
  "py_find [] sub = (if sub = [] then 0 else - 1)"
| "py_find (c # s) sub =
     (if prefix sub (c # s) then 0
      else (let r = py_find s sub in if r = - 1 then - 1 else r + 1))"

text \<open>\<^verbatim>\<open>sub in s\<close>.\<close>

fun py_in :: "string \<Rightarrow> string \<Rightarrow> bool" where
  "py_in sub [] = (sub = [])"
| "py_in sub (c # s) = (prefix sub (c # s) \<or> py_in sub s)"

text \<open>\<^verbatim>\<open>s[i:j]\<close>, with Python's treatment of negative and too large indices.\<close>

definition py_slice :: "'a list \<Rightarrow> int \<Rightarrow> int \<Rightarrow> 'a list" where
  "py_slice s i j =
     (let n = int (length s);
          a = (if i < 0 then max 0 (i + n) else min i n);
          b = (if j < 0 then max 0 (j + n) else min j n)
      in take (nat (b - a)) (drop (nat a) s))"

text \<open>\<^verbatim>\<open>s.strip()\<close>.\<close>

definition py_strip :: "string \<Rightarrow> string" where
  "py_strip s = rev (dropWhile py_isspace (rev (dropWhile py_isspace s)))"

text \<open>\<^verbatim>\<open>s.split()\<close>: the maximal runs of characters that are not white space. The
  second argument is the word being read, last character first.\<close>

fun split_acc :: "string \<Rightarrow> string \<Rightarrow> string list" where
  "split_acc [] w = (if w = [] then [] else [rev w])"
| "split_acc (c # s) w =
     (if py_isspace c then (if w = [] then split_acc s [] else rev w # split_acc s [])
      else split_acc s (c # w))"

definition py_split :: "string \<Rightarrow> string list" where
  "py_split s = split_acc s []"

text \<open>\<^verbatim>\<open>s.replace(old, new)\<close> for a one-character \<open>old\<close>.\<close>

definition py_replace :: "string \<Rightarrow> char \<Rightarrow> string \<Rightarrow> string" where
  "py_replace s old new = concat (map (\<lambda>c. if c = old then new else [c]) s)"

text \<open>\<^verbatim>\<open>sep.join(xs)\<close>.\<close>

fun py_join :: "string \<Rightarrow> string list \<Rightarrow> string" where
  "py_join sep [] = []"
| "py_join sep [x] = x"
| "py_join sep (x # y # xs) = x @ sep @ py_join sep (y # xs)"

text \<open>\<^verbatim>\<open>s.startswith(p)\<close>.\<close>

definition startswith :: "string \<Rightarrow> string \<Rightarrow> bool" where
  "startswith s p = prefix p s"

subsection \<open>Reading a number\<close>

definition digit_val :: "char \<Rightarrow> nat" where
  "digit_val c = cp c - 48"

definition digits_val :: "string \<Rightarrow> nat" where
  "digits_val ds = foldl (\<lambda>a c. 10 * a + digit_val c) 0 ds"

text \<open>
  \<^verbatim>\<open>float(w)\<close> on the strings that reach it in this program: characters that pass
  \<^verbatim>\<open>isdigit\<close> and points (no sign, exponent, underscore, letter or white space can
  be there). Python accepts decimal digits with at most one point and at least one
  digit, and raises ValueError on everything else, a superscript digit included.
\<close>

definition py_float :: "string \<Rightarrow> error + rat" where
  "py_float w =
     (let ip = takeWhile is_decimal w; r = dropWhile is_decimal w in
      case r of
        [] \<Rightarrow> if ip = [] then Inl ValueError else Inr (of_nat (digits_val ip))
      | c # fp \<Rightarrow>
          if c = CHR ''.'' \<and> list_all is_decimal fp \<and> (ip \<noteq> [] \<or> fp \<noteq> [])
          then Inr (of_nat (digits_val (ip @ fp)) / 10 ^ length fp)
          else Inl ValueError)"

text \<open>
  One attempt of the pattern \<^verbatim>\<open>(\d+[,.]\d+)\<close> at the start of a string: the match and
  what follows it. The first \<^verbatim>\<open>\d+\<close> is greedy; giving a digit back leaves a digit,
  not a separator, in front of \<^verbatim>\<open>[,.]\<close>, so only the whole run of digits can match.
\<close>

definition match_at :: "string \<Rightarrow> (string \<times> string) option" where
  "match_at s =
     (let ds = takeWhile is_decimal s in
      if ds = [] then None
      else (case dropWhile is_decimal s of
              [] \<Rightarrow> None
            | c # r \<Rightarrow>
                if (c = CHR '','' \<or> c = CHR ''.'') \<and> takeWhile is_decimal r \<noteq> []
                then Some (ds @ c # takeWhile is_decimal r, dropWhile is_decimal r)
                else None))"

text \<open>\<^verbatim>\<open>re.findall(r'(\d+[,.]\d+)', s)\<close>: the matches from left to right, each search
  starting where the previous match ended.\<close>

function re_findall :: "string \<Rightarrow> string list" where
  "re_findall [] = []"
| "re_findall (c # s) =
     (case match_at (c # s) of
        Some (m, rest) \<Rightarrow> m # re_findall rest
      | None \<Rightarrow> re_findall s)"
  by pat_completeness auto
termination
proof (relation "measure length")
  fix c s x2 m rest
  assume "match_at (c # s) = Some x2" and "(m, rest) = x2"
  then have "rest = dropWhile is_decimal (tl (dropWhile is_decimal (c # s)))"
    and "takeWhile is_decimal (c # s) \<noteq> []"
    by (auto simp: match_at_def Let_def split: if_splits list.splits)
  moreover have "length (dropWhile is_decimal (tl (dropWhile is_decimal (c # s))))
      \<le> length (dropWhile is_decimal (c # s))"
    by (metis diff_le_self le_trans length_dropWhile_le length_tl)
  moreover have "takeWhile is_decimal (c # s) \<noteq> [] \<Longrightarrow>
      length (dropWhile is_decimal (c # s)) < length (c # s)"
    by (cases "is_decimal c") (auto simp: le_imp_less_Suc length_dropWhile_le)
  ultimately show "(rest, c # s) \<in> measure length"
    by auto
qed auto

subsection \<open>The price extractor\<close>

definition FUEL_TYPE_MAPPING :: "(string \<times> string) list" where
  "FUEL_TYPE_MAPPING =
     [(''special 95'', ''PETROL''),
      (''super 98'', ''SUPER''),
      (''e-plus 91'', ''EPLUS''),
      (''diesel'', ''DIESEL'')]"

text \<open>The loop over \<^verbatim>\<open>number_segment.split()\<close>: the first word that is digits once
  its points are removed is given to \<^verbatim>\<open>float\<close>, and the loop ends there.\<close>

fun first_number :: "string list \<Rightarrow> error + rat option" where
  "first_number [] = Inr None"
| "first_number (word # ws) =
     (if py_isdigit (py_replace word (CHR ''.'') [])
      then (case py_float word of Inl e \<Rightarrow> Inl e | Inr v \<Rightarrow> Inr (Some v))
      else first_number ws)"

text \<open>The first pattern, on a segment that contains \<^verbatim>\<open>aed\<close>.\<close>

definition aed_price :: "string \<Rightarrow> error + rat option" where
  "aed_price segment =
     (let aed_pos = py_find segment ''aed'';
          number_segment = py_strip (py_slice segment (aed_pos + 3) (aed_pos + 10))
      in first_number (py_split number_segment))"

text \<open>The second pattern.\<close>

definition regex_price :: "string \<Rightarrow> error + rat option" where
  "regex_price segment =
     (case re_findall segment of
        [] \<Rightarrow> Inr None
      | m # ms \<Rightarrow>
          (case py_float (py_replace m (CHR '','') ''.'') of
             Inl e \<Rightarrow> Inl e
           | Inr v \<Rightarrow> Inr (Some v)))"

text \<open>The body of the \<^verbatim>\<open>try\<close> for one label, up to the value of \<^verbatim>\<open>price\<close>:
  \<open>Inl\<close> is an exception, \<open>Inr None\<close> is \<^verbatim>\<open>price is None\<close> (or the \<^verbatim>\<open>continue\<close>).\<close>

definition find_price :: "string \<Rightarrow> string \<Rightarrow> error + rat option" where
  "find_price text_lower key =
     (let pos = py_find text_lower key in
      if pos = - 1 then Inr None
      else
        (let segment = py_slice text_lower pos (pos + 100) in
         case (if py_in ''aed'' segment then aed_price segment else Inr None) of
           Inl e \<Rightarrow> Inl e
         | Inr (Some price) \<Rightarrow> Inr (Some price)
         | Inr None \<Rightarrow> regex_price segment))"

text \<open>One turn of the \<^verbatim>\<open>for\<close> loop over the mapping, with the \<^verbatim>\<open>prices\<close> dict as an
  association list. An exception is caught, and the dict stays as it is;
  \<^verbatim>\<open>if price:\<close> is false for \<^verbatim>\<open>None\<close> and for zero.\<close>

definition loop_body :: "string \<Rightarrow> string \<Rightarrow> string \<Rightarrow> (string \<times> rat) list \<Rightarrow> (string \<times> rat) list" where
  "loop_body text_lower key fuel_type prices =
     (case find_price text_lower key of
        Inl e \<Rightarrow> prices
      | Inr None \<Rightarrow> prices
      | Inr (Some price) \<Rightarrow>
          if price \<noteq> 0 then AList.update fuel_type price prices else prices)"

fun extract_loop :: "(string \<times> string) list \<Rightarrow> string \<Rightarrow> (string \<times> rat) list \<Rightarrow> (string \<times> rat) list" where
  "extract_loop [] text_lower prices = prices"
| "extract_loop ((key, fuel_type) # rest) text_lower prices =
     extract_loop rest text_lower (loop_body text_lower key fuel_type prices)"

definition extract_prices :: "string \<Rightarrow> (string \<times> rat) list" where
  "extract_prices article_text = extract_loop FUEL_TYPE_MAPPING (py_lower article_text) []"

record price_report =
  prices :: "(string \<times> rat) list"
  date :: string
  source :: string

text \<open>\<open>now\<close> is \<^verbatim>\<open>datetime.now(timezone.utc).isoformat()\<close>.\<close>

definition extract_fuel_prices :: "string \<Rightarrow> string \<Rightarrow> price_report option" where
  "extract_fuel_prices now article_text =
     (let prices = extract_prices article_text in
      if prices \<noteq> []
      then Some \<lparr>prices = prices, date = now, source = ''WAM (Emirates News Agency)''\<rparr>
      else None)"

subsection \<open>The announcement selector\<close>

text \<open>The test on the title of a card.\<close>

definition is_announcement :: "string \<Rightarrow> bool" where
  "is_announcement title =
     ((py_in ''fuel price'' title \<or> py_in ''petrol price'' title)
      \<and> (py_in ''announce'' title \<or> py_in ''set'' title))"

text \<open>A result card as the code reads it: the text of its \<^verbatim>\<open>.card-title\<close> and of its
  \<^verbatim>\<open>.item-date\<close> element, and the \<^verbatim>\<open>href\<close> of its first \<^verbatim>\<open>a\<close> element (\<open>Some None\<close>
  when the element has no such attribute); \<open>None\<close> where \<^verbatim>\<open>select_one\<close> finds nothing.\<close>

record html_card =
  title_elem :: "string option"
  date_elem :: "string option"
  link_elem :: "string option option"

text \<open>An entry of \<^verbatim>\<open>fuel_price_articles\<close>; \<open>date_text\<close> is its key \<^verbatim>\<open>'date'\<close>.\<close>

record candidate =
  title :: string
  date_text :: string
  link :: "string option"

fun fuel_price_articles :: "html_card list \<Rightarrow> candidate list" where
  "fuel_price_articles [] = []"
| "fuel_price_articles (article # articles) =
     (case (title_elem article, date_elem article, link_elem article) of
        (Some t, Some d, Some href) \<Rightarrow>
          (let title = py_lower (py_strip t); date_text = py_strip d in
           if is_announcement title
           then \<lparr>title = title, date_text = date_text, link = href\<rparr> # fuel_price_articles articles
           else fuel_price_articles articles)
      | _ \<Rightarrow> fuel_price_articles articles)"

text \<open>\<^verbatim>\<open>xs.sort(key=..., reverse=True)\<close>: Python reverses the list, sorts it with its
  stable sort and reverses the result, so equal keys keep their order.\<close>

definition sort_reverse :: "('a \<Rightarrow> 'k::linorder) \<Rightarrow> 'a list \<Rightarrow> 'a list" where
  "sort_reverse f xs = rev (sort_key f (rev xs))"

definition latest_article :: "html_card list \<Rightarrow> candidate option" where
  "latest_article articles =
     (case sort_reverse date_text (fuel_price_articles articles) of
        [] \<Rightarrow> None
      | a # as \<Rightarrow> Some a)"

text \<open>The URL of the chosen article; \<^verbatim>\<open>None.startswith\<close> raises AttributeError.\<close>

definition article_url_of :: "string option \<Rightarrow> error + string" where
  "article_url_of href =
     (case href of
        None \<Rightarrow> Inl AttributeError
      | Some article_url \<Rightarrow>
          if \<not> startswith article_url ''http'' then Inr (''https://wam.ae'' @ article_url)
          else Inr article_url)"

subsection \<open>The network and the pipeline\<close>

text \<open>A parsed document: the elements \<^verbatim>\<open>.search-results .card\<close>, and the texts of the
  \<^verbatim>\<open>p\<close> elements of \<^verbatim>\<open>.article-body\<close> when there is such an element.\<close>

record page =
  cards :: "html_card list"
  article_body :: "string list option"

record response =
  status_code :: nat
  soup :: page

datatype request = GET string | POST string price_report

text \<open>The world outside: what the network answers to a request, given the requests made
  before it (\<open>Inl\<close> is a connection error or a timeout), the clock, and the variable
  \<^verbatim>\<open>APP_URL\<close> of the environment.\<close>

record env =
  net :: "request list \<Rightarrow> request \<Rightarrow> error + response"
  clock :: string
  APP_URL :: "string option"

definition WAM_FUEL_PRICES_URL :: string where
  "WAM_FUEL_PRICES_URL = ''https://wam.ae/en/search?query=fuel+prices''"

definition TRIPXL_API_URL :: "env \<Rightarrow> string" where
  "TRIPXL_API_URL e =
     (case APP_URL e of None \<Rightarrow> ''http://localhost:5000'' | Some u \<Rightarrow> u) @ ''/api/fuel-types/update''"

text \<open>\<^verbatim>\<open>Response.raise_for_status\<close> of the requests library raises HTTPError, a
  RequestException, for the statuses 400 to 599 and for no other.\<close>

definition raise_for_status :: "response \<Rightarrow> error + unit" where
  "raise_for_status r =
     (if 400 \<le> status_code r \<and> status_code r < 600 then Inl RequestException else Inr ())"

text \<open>One request followed by \<^verbatim>\<open>raise_for_status\<close>; the request joins the trace.\<close>

definition http :: "env \<Rightarrow> request \<Rightarrow> request list \<Rightarrow> (error + response) \<times> request list" where
  "http e rq trace =
     ((case net e trace rq of
         Inl err \<Rightarrow> Inl err
       | Inr r \<Rightarrow> (case raise_for_status r of Inl err \<Rightarrow> Inl err | Inr u \<Rightarrow> Inr r)),
      trace @ [rq])"

text \<open>Every exception inside \<^verbatim>\<open>scrape_wam_for_fuel_prices\<close> is caught there and turned
  into \<^verbatim>\<open>None\<close>.\<close>

definition scrape_wam_for_fuel_prices :: "env \<Rightarrow> request list \<Rightarrow> price_report option \<times> request list" where
  "scrape_wam_for_fuel_prices e trace =
     (case http e (GET WAM_FUEL_PRICES_URL) trace of
        (Inl err, trace1) \<Rightarrow> (None, trace1)
      | (Inr response, trace1) \<Rightarrow>
          let articles = cards (soup response) in
          if articles = [] then (None, trace1)
          else
            (case latest_article articles of
               None \<Rightarrow> (None, trace1)
             | Some latest \<Rightarrow>
                 (case article_url_of (link latest) of
                    Inl err \<Rightarrow> (None, trace1)
                  | Inr article_url \<Rightarrow>
                      (case http e (GET article_url) trace1 of
                         (Inl err, trace2) \<Rightarrow> (None, trace2)
                       | (Inr article_response, trace2) \<Rightarrow>
                           (case article_body (soup article_response) of
                              None \<Rightarrow> (None, trace2)
                            | Some paragraphs \<Rightarrow>
                                (extract_fuel_prices (clock e)
                                   (py_join '' '' (map py_strip paragraphs)), trace2))))))"

text \<open>\<^verbatim>\<open>not price_data\<close> holds for \<^verbatim>\<open>None\<close>; a report, a dict of three keys, is true.\<close>

definition send_prices_to_tripxl :: "env \<Rightarrow> price_report option \<Rightarrow> request list \<Rightarrow> bool \<times> request list" where
  "send_prices_to_tripxl e price_data trace =
     (case price_data of
        None \<Rightarrow> (False, trace)
      | Some report \<Rightarrow>
          (case http e (POST (TRIPXL_API_URL e) report) trace of
             (Inl err, trace1) \<Rightarrow> (False, trace1)
           | (Inr response, trace1) \<Rightarrow> (True, trace1)))"

definition run_scraper :: "env \<Rightarrow> bool \<times> request list" where
  "run_scraper e =
     (case scrape_wam_for_fuel_prices e [] of
        (Some report, trace) \<Rightarrow> send_prices_to_tripxl e (Some report) trace
      | (None, trace) \<Rightarrow> (False, trace))"

text \<open>\<^verbatim>\<open>sys.exit(0 if success else 1)\<close>.\<close>

definition exit_status :: "env \<Rightarrow> int" where
  "exit_status e = (if fst (run_scraper e) then 0 else 1)"

subsection \<open>Notions of the specification\<close>

text \<open>The specification speaks of a 2xx response, of an absolute URL, of the marker
  \<^verbatim>\<open>aed\<close> with a number after it and of the first match of a pattern. These are stated here on their own, not read off the code.\<close>

definition success_2xx :: "nat \<Rightarrow> bool" where
  "success_2xx status = (200 \<le> status \<and> status < 300)"

text \<open>The statuses of a client or server error, 4xx and 5xx.\<close>

definition error_status :: "nat \<Rightarrow> bool" where
  "error_status status = (400 \<le> status \<and> status < 600)"

text \<open>An absolute URL starts with a scheme and a colon (RFC 3986): a letter, then
  letters, digits, plus, minus and point, in either case.\<close>

definition is_alpha :: "char \<Rightarrow> bool" where
  "is_alpha c = ((65 \<le> cp c \<and> cp c \<le> 90) \<or> (97 \<le> cp c \<and> cp c \<le> 122))"

definition scheme_char :: "char \<Rightarrow> bool" where
  "scheme_char c = (is_alpha c \<or> is_decimal c \<or> c = CHR ''+'' \<or> c = CHR ''-'' \<or> c = CHR ''.'')"

definition is_absolute_url :: "string \<Rightarrow> bool" where
  "is_absolute_url u =
     (case takeWhile (\<lambda>c. c \<noteq> CHR '':'') u of
        [] \<Rightarrow> False
      | c # cs \<Rightarrow> is_alpha c \<and> list_all scheme_char cs \<and> length (c # cs) < length u)"

text \<open>A string of the form digits, separator, digits.\<close>

definition is_match :: "string \<Rightarrow> bool" where
  "is_match m =
     (takeWhile is_decimal m \<noteq> [] \<and>
      (case dropWhile is_decimal m of
         [] \<Rightarrow> False
       | c # fs \<Rightarrow> (c = CHR ''.'' \<or> c = CHR '','') \<and> fs \<noteq> [] \<and> list_all is_decimal fs))"

text \<open>The longest prefix of \<open>s\<close>, of at most \<open>n\<close> characters, that is such a string.\<close>

fun longest_match :: "string \<Rightarrow> nat \<Rightarrow> string option" where
  "longest_match s 0 = None"
| "longest_match s (Suc n) =
     (if is_match (take (Suc n) s) then Some (take (Suc n) s) else longest_match s n)"

text \<open>The first match in a string: the leftmost place where one starts, and the longest
  one that starts there.\<close>

fun first_match :: "string \<Rightarrow> string option" where
  "first_match [] = None"
| "first_match (c # s) =
     (case longest_match (c # s) (Suc (length s)) of
        Some m \<Rightarrow> Some m
      | None \<Rightarrow> first_match s)"

text \<open>What follows the first occurrence of \<open>sub\<close> in a string, if there is one.\<close>

fun after_first :: "string \<Rightarrow> string \<Rightarrow> string option" where
  "after_first sub [] = (if sub = [] then Some [] else None)"
| "after_first sub (c # s) =
     (if prefix sub (c # s) then Some (drop (length sub) (c # s)) else after_first sub s)"

text \<open>The window holds \<^verbatim>\<open>aed\<close> with a number after it: among the seven characters that
  follow the first \<^verbatim>\<open>aed\<close>, a word between white space is a decimal numeral.\<close>

definition aed_number :: "string \<Rightarrow> bool" where
  "aed_number w =
     (case after_first ''aed'' w of
        None \<Rightarrow> False
      | Some rest \<Rightarrow> list_ex (\<lambda>word. \<not> isl (py_float word)) (py_split (take 7 rest)))"

subsection \<open>A run of the pipeline, for the examples\<close>

text \<open>The listing of the specification's scenario: a matching card dated 2024-06-30 and
  an unrelated card dated 2024-07-01; the article it leads to; a network that serves both
  and answers the POST with a given status.\<close>

definition demo_cards :: "html_card list" where
  "demo_cards =
     [\<lparr>title_elem = Some ''Fuel prices announced for next month'',
       date_elem = Some ''2024-06-30'',
       link_elem = Some (Some ''/en/details/1'')\<rparr>,
      \<lparr>title_elem = Some ''Unrelated news'',
       date_elem = Some ''2024-07-01'',
       link_elem = Some (Some ''/en/details/2'')\<rparr>]"

definition demo_report :: price_report where
  "demo_report =
     \<lparr>prices = [(''PETROL'', 68 / 25), (''DIESEL'', 14 / 5)],
      date = ''2024-07-01T06:00:00+00:00'',
      source = ''WAM (Emirates News Agency)''\<rparr>"

definition demo_net :: "nat \<Rightarrow> request list \<Rightarrow> request \<Rightarrow> error + response" where
  "demo_net post_status trace rq =
     (case rq of
        GET u \<Rightarrow>
          if u = ''https://wam.ae/en/search?query=fuel+prices''
          then Inr \<lparr>status_code = 200, soup = \<lparr>cards = demo_cards, article_body = None\<rparr>\<rparr>
          else if u = ''https://wam.ae/en/details/1''
          then Inr \<lparr>status_code = 200,
                    soup = \<lparr>cards = [],
                            article_body = Some [''Special 95 will cost AED 2.72 '',
                                                 ''diesel AED 2.80'']\<rparr>\<rparr>
          else Inl RequestException
      | POST u r \<Rightarrow>
          Inr \<lparr>status_code = post_status, soup = \<lparr>cards = [], article_body = None\<rparr>\<rparr>)"

definition demo_env :: "nat \<Rightarrow> env" where
  "demo_env post_status =
     \<lparr>net = demo_net post_status, clock = ''2024-07-01T06:00:00+00:00'', APP_URL = None\<rparr>"

definition demo_trace :: "request list" where
  "demo_trace =
     [GET ''https://wam.ae/en/search?query=fuel+prices'', GET ''https://wam.ae/en/details/1'']"

text \<open>The stages of that run by name: the listing, the selected card, the article and
  its paragraphs, and the answer to the POST.\<close>

definition demo_listing :: response where
  "demo_listing = \<lparr>status_code = 200, soup = \<lparr>cards = demo_cards, article_body = None\<rparr>\<rparr>"

definition demo_latest :: candidate where
  "demo_latest =
     \<lparr>title = ''fuel prices announced for next month'', date_text = ''2024-06-30'',
      link = Some ''/en/details/1''\<rparr>"

definition demo_paragraphs :: "string list" where
  "demo_paragraphs = [''Special 95 will cost AED 2.72 '', ''diesel AED 2.80'']"

definition demo_article :: response where
  "demo_article =
     \<lparr>status_code = 200, soup = \<lparr>cards = [], article_body = Some demo_paragraphs\<rparr>\<rparr>"

definition demo_answer :: "nat \<Rightarrow> response" where
  "demo_answer post_status =
     \<lparr>status_code = post_status, soup = \<lparr>cards = [], article_body = None\<rparr>\<rparr>"

section \<open>Properties\<close>

subsection \<open>The loop over the fuel types\<close>

lemma loop_body_lookup:
  "map_of (loop_body t key c acc) code =
     (if c = code then
        (case find_price t key of
           Inr (Some p) \<Rightarrow> if p \<noteq> 0 then Some p else map_of acc code
         | _ \<Rightarrow> map_of acc code)
      else map_of acc code)"
  by (simp add: loop_body_def update_conv split: sum.splits option.splits)

lemma extract_loop_other:
  "code \<notin> snd ` set m \<Longrightarrow> map_of (extract_loop m t acc) code = map_of acc code"
  by (induction m arbitrary: acc) (auto simp: loop_body_lookup)

lemma extract_loop_lookup:
  "distinct (map snd m) \<Longrightarrow> (key, code) \<in> set m \<Longrightarrow>
   map_of (extract_loop m t acc) code =
     (case find_price t key of
        Inr (Some p) \<Rightarrow> if p \<noteq> 0 then Some p else map_of acc code
      | _ \<Rightarrow> map_of acc code)"
proof (induction m arbitrary: acc)
  case Nil
  then show ?case by simp
next
  case (Cons kc rest)
  obtain k c where kc: "kc = (k, c)" by (cases kc)
  show ?case
  proof (cases "(key, code) = (k, c)")
    case True
    with Cons.prems kc have "code \<notin> snd ` set rest" by auto
    then show ?thesis using True kc
      by (simp add: extract_loop_other loop_body_lookup split: sum.splits option.splits)
  next
    case False
    with Cons.prems kc have in_rest: "(key, code) \<in> set rest" and d: "distinct (map snd rest)"
      and ne: "c \<noteq> code" by (auto simp: image_iff)
    show ?thesis
      using Cons.IH[OF d in_rest] ne kc
      by (simp add: loop_body_lookup split: sum.splits option.splits)
  qed
qed

lemma loop_body_keys: "fst ` set (loop_body t key c acc) \<subseteq> insert c (fst ` set acc)"
  by (auto simp: loop_body_def dom_update split: sum.splits option.splits)

lemma extract_loop_keys:
  "fst ` set (extract_loop m t acc) \<subseteq> fst ` set acc \<union> snd ` set m"
proof (induction m arbitrary: acc)
  case Nil
  then show ?case by simp
next
  case (Cons kc rest)
  obtain k c where kc: "kc = (k, c)" by (cases kc)
  show ?case using Cons.IH[of "loop_body t k c acc"] loop_body_keys[of t k c acc] kc
    by auto
qed

lemma loop_body_distinct: "distinct (map fst acc) \<Longrightarrow> distinct (map fst (loop_body t key c acc))"
  by (auto simp: loop_body_def distinct_update split: sum.splits option.splits)

lemma extract_loop_distinct:
  "distinct (map fst acc) \<Longrightarrow> distinct (map fst (extract_loop m t acc))"
  by (induction m arbitrary: acc) (auto simp: loop_body_distinct)

lemma mapping_distinct: "distinct (map snd FUEL_TYPE_MAPPING)"
  by (simp add: FUEL_TYPE_MAPPING_def)

lemma extract_prices_lookup:
  "(key, code) \<in> set FUEL_TYPE_MAPPING \<Longrightarrow>
   map_of (extract_prices t) code =
     (case find_price (py_lower t) key of
        Inr (Some p) \<Rightarrow> if p \<noteq> 0 then Some p else None
      | _ \<Rightarrow> None)"
  unfolding extract_prices_def
  by (simp add: extract_loop_lookup[OF mapping_distinct] split: sum.splits option.splits)

lemma extract_prices_keys:
  "fst ` set (extract_prices t) \<subseteq> {''PETROL'', ''SUPER'', ''EPLUS'', ''DIESEL''}"
  using extract_loop_keys[of FUEL_TYPE_MAPPING "py_lower t" "[]"]
  by (simp add: extract_prices_def FUEL_TYPE_MAPPING_def)

lemma extract_prices_distinct: "distinct (map fst (extract_prices t))"
  by (simp add: extract_prices_def extract_loop_distinct)

lemma extract_prices_length: "length (extract_prices t) \<le> 4"
proof -
  have "length (extract_prices t) = card (fst ` set (extract_prices t))"
    using distinct_card[OF extract_prices_distinct[of t]] by simp
  also have "\<dots> \<le> card {''PETROL'', ''SUPER'', ''EPLUS'', ''DIESEL''}"
    by (rule card_mono[OF _ extract_prices_keys]) simp
  also have "\<dots> = 4" by simp
  finally show ?thesis .
qed

subsection \<open>Prices are not negative\<close>

lemma py_float_nonneg: "py_float w = Inr v \<Longrightarrow> 0 \<le> v"
  by (auto simp: py_float_def Let_def split: list.splits if_splits)

lemma first_number_nonneg: "first_number ws = Inr (Some v) \<Longrightarrow> 0 \<le> v"
  by (induction ws) (auto dest: py_float_nonneg split: if_splits sum.splits)

lemma aed_price_nonneg: "aed_price s = Inr (Some v) \<Longrightarrow> 0 \<le> v"
  by (simp add: aed_price_def Let_def first_number_nonneg)

lemma regex_price_nonneg: "regex_price s = Inr (Some v) \<Longrightarrow> 0 \<le> v"
  by (auto simp: regex_price_def dest: py_float_nonneg split: list.splits sum.splits)

lemma find_price_nonneg: "find_price t key = Inr (Some v) \<Longrightarrow> 0 \<le> v"
  by (auto simp: find_price_def Let_def dest: aed_price_nonneg regex_price_nonneg
      split: if_splits sum.splits option.splits)

lemma extract_prices_entry:
  assumes "(code, v) \<in> set (extract_prices t)"
  shows "\<exists>key. (key, code) \<in> set FUEL_TYPE_MAPPING \<and> find_price (py_lower t) key = Inr (Some v) \<and> v \<noteq> 0"
proof -
  from assms have m: "map_of (extract_prices t) code = Some v"
    using extract_prices_distinct[of t] by simp
  from assms have "code \<in> fst ` set (extract_prices t)" by force
  with extract_loop_keys[of FUEL_TYPE_MAPPING "py_lower t" "[]"]
  obtain key where k: "(key, code) \<in> set FUEL_TYPE_MAPPING"
    by (auto simp: extract_prices_def)
  from extract_prices_lookup[OF k, of t] m
  have "find_price (py_lower t) key = Inr (Some v) \<and> v \<noteq> 0"
    by (auto split: sum.splits option.splits if_splits)
  with k show ?thesis by blast
qed

lemma extract_prices_positive: "(code, v) \<in> set (extract_prices t) \<Longrightarrow> 0 < v"
  using extract_prices_entry[of code v t] find_price_nonneg by fastforce

lemma extract_fuel_prices_Some:
  "extract_fuel_prices now t = Some r \<longleftrightarrow>
     extract_prices t \<noteq> [] \<and>
     r = \<lparr>prices = extract_prices t, date = now, source = ''WAM (Emirates News Agency)''\<rparr>"
  by (auto simp: extract_fuel_prices_def Let_def)

lemma extract_fuel_prices_None:
  "extract_fuel_prices now t = None \<longleftrightarrow> extract_prices t = []"
  by (auto simp: extract_fuel_prices_def Let_def)

lemma http_trace: "snd (http e rq trace) = trace @ [rq]"
  by (simp add: http_def)

lemma scrape_result:
  assumes "scrape_wam_for_fuel_prices e trace = (pd, trace')"
  shows "(\<forall>r. pd = Some r \<longrightarrow> prices r \<noteq> []) \<and>
         (\<forall>rq \<in> set trace' - set trace. \<exists>u. rq = GET u)"
  using assms
  unfolding scrape_wam_for_fuel_prices_def Let_def http_def
  by (auto simp: extract_fuel_prices_Some split: sum.splits option.splits if_splits prod.splits)

lemma send_trace:
  "send_prices_to_tripxl e (Some r) trace = (ok, trace') \<Longrightarrow> trace' = trace @ [POST (TRIPXL_API_URL e) r]"
  by (auto simp: send_prices_to_tripxl_def http_def split: sum.splits prod.splits)

lemma run_posts:
  assumes "POST url r \<in> set (snd (run_scraper e))"
  shows "prices r \<noteq> []"
proof -
  obtain pd tr where s: "scrape_wam_for_fuel_prices e [] = (pd, tr)" by force
  from scrape_result[OF s] have g: "\<forall>rq \<in> set tr. \<exists>u. rq = GET u"
    and ne: "\<forall>r. pd = Some r \<longrightarrow> prices r \<noteq> []" by auto
  show ?thesis
  proof (cases pd)
    case None
    with s assms g show ?thesis by (auto simp: run_scraper_def)
  next
    case (Some r')
    obtain ok tr' where snd: "send_prices_to_tripxl e (Some r') tr = (ok, tr')" by force
    from send_trace[OF snd] have "tr' = tr @ [POST (TRIPXL_API_URL e) r']" .
    with s Some snd assms g have "r = r'" by (auto simp: run_scraper_def)
    with ne Some show ?thesis by simp
  qed
qed

subsection \<open>The selector\<close>

lemma fuel_price_articles_set:
  "set (fuel_price_articles cs) =
     {\<lparr>title = py_lower (py_strip t), date_text = py_strip d, link = href\<rparr> | t d href.
        (\<exists>c \<in> set cs. title_elem c = Some t \<and> date_elem c = Some d \<and> link_elem c = Some href)
        \<and> is_announcement (py_lower (py_strip t))}"
proof (induction cs)
  case Nil
  then show ?case by simp
next
  case (Cons c cs)
  show ?case
    unfolding fuel_price_articles.simps Let_def
    by (auto simp: Cons.IH split: option.splits)
qed

lemma sort_reverse_set: "set (sort_reverse f xs) = set xs"
  by (simp add: sort_reverse_def)

lemma sort_reverse_first:
  assumes "sort_reverse f xs = a # as"
  shows "\<forall>b \<in> set xs. f b \<le> f a"
proof -
  from assms have "sort_key f (rev xs) = rev as @ [a]"
    by (metis rev.simps(2) rev_rev_ident sort_reverse_def)
  moreover have "sorted (map f (sort_key f (rev xs)))" by simp
  ultimately have "sorted (map f (rev as) @ [f a])" by simp
  then have "\<forall>b \<in> set as. f b \<le> f a"
    by (auto simp: sorted_append)
  moreover have "set xs = insert a (set as)"
    using sort_reverse_set[of f xs] assms by simp
  ultimately show ?thesis by auto
qed

lemma latest_article_None: "(latest_article cs = None) = (fuel_price_articles cs = [])"
proof -
  have "(sort_reverse date_text (fuel_price_articles cs) = []) = (fuel_price_articles cs = [])"
    using sort_reverse_set[of date_text "fuel_price_articles cs"] by (metis set_empty)
  then show ?thesis
    by (auto simp: latest_article_def split: list.splits)
qed

lemma latest_article_Some:
  assumes "latest_article cs = Some a"
  shows "a \<in> set (fuel_price_articles cs) \<and> (\<forall>b \<in> set (fuel_price_articles cs). date_text b \<le> date_text a)"
proof -
  from assms obtain as where s: "sort_reverse date_text (fuel_price_articles cs) = a # as"
    by (auto simp: latest_article_def split: list.splits)
  then have "a \<in> set (fuel_price_articles cs)"
    using sort_reverse_set[of date_text "fuel_price_articles cs"] by auto
  with sort_reverse_first[OF s] show ?thesis by simp
qed

subsection \<open>Links\<close>

lemma origin_is_absolute: "is_absolute_url (''https://wam.ae'' @ href)"
  by (simp add: is_absolute_url_def is_alpha_def scheme_char_def is_decimal_def cp_def)

lemma http_prefix_is_absolute:
  assumes "startswith href ''http://'' \<or> startswith href ''https://''"
  shows "is_absolute_url href \<and> startswith href ''http''"
proof -
  from assms obtain r where "href = ''http://'' @ r \<or> href = ''https://'' @ r"
    by (auto simp: startswith_def prefix_def)
  then show ?thesis
    by (auto simp: is_absolute_url_def is_alpha_def scheme_char_def is_decimal_def cp_def startswith_def)
qed

lemma article_url_of_cases:
  "article_url_of (Some href) =
     Inr (if startswith href ''http'' then href else ''https://wam.ae'' @ href)
   \<and> (\<not> startswith href ''http'' \<longrightarrow> is_absolute_url (''https://wam.ae'' @ href))
   \<and> (startswith href ''http://'' \<or> startswith href ''https://'' \<longrightarrow>
        is_absolute_url href \<and> article_url_of (Some href) = Inr href)"
  using origin_is_absolute[of href] http_prefix_is_absolute[of href]
  by (auto simp: article_url_of_def)

subsection \<open>The outcome of a run\<close>

lemma send_result:
  "fst (send_prices_to_tripxl e (Some r) trace) =
     (\<exists>resp. net e trace (POST (TRIPXL_API_URL e) r) = Inr resp
             \<and> \<not> (400 \<le> status_code resp \<and> status_code resp < 600))"
  by (auto simp: send_prices_to_tripxl_def http_def raise_for_status_def
      split: sum.splits prod.splits if_splits)

lemma run_scraper_success:
  "fst (run_scraper e) =
     (\<exists>r trace resp. scrape_wam_for_fuel_prices e [] = (Some r, trace)
        \<and> net e trace (POST (TRIPXL_API_URL e) r) = Inr resp
        \<and> \<not> (400 \<le> status_code resp \<and> status_code resp < 600))"
proof -
  obtain pd tr where s: "scrape_wam_for_fuel_prices e [] = (pd, tr)" by force
  show ?thesis
  proof (cases pd)
    case None
    with s show ?thesis by (simp add: run_scraper_def)
  next
    case (Some r)
    with s show ?thesis using send_result[of e r tr] by (simp add: run_scraper_def)
  qed
qed

lemma scrape_Some_prices:
  "scrape_wam_for_fuel_prices e trace = (Some r, trace') \<Longrightarrow> prices r \<noteq> []"
  unfolding scrape_wam_for_fuel_prices_def Let_def http_def
  by (auto simp: extract_fuel_prices_def Let_def split: sum.splits option.splits if_splits prod.splits)

lemma latest_article_Nil: "latest_article [] = None"
  by (simp add: latest_article_def sort_reverse_def)

lemma http_result:
  "http e rq trace =
     ((case net e trace rq of
         Inl err \<Rightarrow> Inl err
       | Inr r \<Rightarrow> if error_status (status_code r) then Inl RequestException else Inr r),
      trace @ [rq])"
  by (simp add: http_def raise_for_status_def error_status_def split: sum.splits)

lemma run_outcome:
  "fst (run_scraper e) =
     (case net e [] (GET WAM_FUEL_PRICES_URL) of
        Inl err \<Rightarrow> False
      | Inr response \<Rightarrow>
          \<not> error_status (status_code response) \<and>
          (case latest_article (cards (soup response)) of
             None \<Rightarrow> False
           | Some latest \<Rightarrow>
               (case article_url_of (link latest) of
                  Inl err \<Rightarrow> False
                | Inr article_url \<Rightarrow>
                    (case net e [GET WAM_FUEL_PRICES_URL] (GET article_url) of
                       Inl err \<Rightarrow> False
                     | Inr article_response \<Rightarrow>
                         \<not> error_status (status_code article_response) \<and>
                         (case article_body (soup article_response) of
                            None \<Rightarrow> False
                          | Some paragraphs \<Rightarrow>
                              (case extract_fuel_prices (clock e)
                                      (py_join '' '' (map py_strip paragraphs)) of
                                 None \<Rightarrow> False
                               | Some report \<Rightarrow>
                                   (case net e [GET WAM_FUEL_PRICES_URL, GET article_url]
                                           (POST (TRIPXL_API_URL e) report) of
                                      Inl err \<Rightarrow> False
                                    | Inr post_response \<Rightarrow>
                                        \<not> error_status (status_code post_response))))))))"
proof (cases "net e [] (GET WAM_FUEL_PRICES_URL)")
  case (Inl err)
  then show ?thesis
    by (simp add: run_scraper_def scrape_wam_for_fuel_prices_def http_result)
next
  case n1: (Inr response)
  show ?thesis
  proof (cases "error_status (status_code response)")
    case True
    with n1 show ?thesis
      by (simp add: run_scraper_def scrape_wam_for_fuel_prices_def http_result)
  next
    case ok1: False
    show ?thesis
    proof (cases "latest_article (cards (soup response))")
      case None
      with n1 ok1 show ?thesis
        by (simp add: run_scraper_def scrape_wam_for_fuel_prices_def http_result Let_def)
    next
      case la: (Some latest)
      then have ne: "cards (soup response) \<noteq> []"
        using latest_article_Nil by auto
      show ?thesis
      proof (cases "article_url_of (link latest)")
        case (Inl err)
        with n1 ok1 la ne show ?thesis
          by (simp add: run_scraper_def scrape_wam_for_fuel_prices_def http_result Let_def)
      next
        case url: (Inr article_url)
        show ?thesis
        proof (cases "net e [GET WAM_FUEL_PRICES_URL] (GET article_url)")
          case (Inl err)
          with n1 ok1 la ne url show ?thesis
            by (simp add: run_scraper_def scrape_wam_for_fuel_prices_def http_result Let_def)
        next
          case n2: (Inr article_response)
          show ?thesis
          proof (cases "error_status (status_code article_response)")
            case True
            with n1 ok1 la ne url n2 show ?thesis
              by (simp add: run_scraper_def scrape_wam_for_fuel_prices_def http_result Let_def)
          next
            case ok2: False
            show ?thesis
            proof (cases "article_body (soup article_response)")
              case None
              with n1 ok1 la ne url n2 ok2 show ?thesis
                by (simp add: run_scraper_def scrape_wam_for_fuel_prices_def http_result Let_def)
            next
              case body: (Some paragraphs)
              show ?thesis
              proof (cases "extract_fuel_prices (clock e) (py_join '' '' (map py_strip paragraphs))")
                case None
                with n1 ok1 la ne url n2 ok2 body show ?thesis
                  by (simp add: run_scraper_def scrape_wam_for_fuel_prices_def http_result Let_def)
              next
                case rep: (Some report)
                with n1 ok1 la ne url n2 ok2 body show ?thesis
                  by (simp add: run_scraper_def scrape_wam_for_fuel_prices_def
                      send_prices_to_tripxl_def http_result Let_def split: sum.split)
              qed
            qed
          qed
        qed
      qed
    qed
  qed
qed

lemma exit_status_run: "(exit_status e = 0) = fst (run_scraper e)" "(exit_status e = 1) = (\<not> fst (run_scraper e))"
  by (simp_all add: exit_status_def)

lemma run_success_iff:
  "fst (run_scraper e) =
     (\<exists>response latest article_url article_response paragraphs report post_response.
        net e [] (GET WAM_FUEL_PRICES_URL) = Inr response
        \<and> \<not> error_status (status_code response)
        \<and> latest_article (cards (soup response)) = Some latest
        \<and> article_url_of (link latest) = Inr article_url
        \<and> net e [GET WAM_FUEL_PRICES_URL] (GET article_url) = Inr article_response
        \<and> \<not> error_status (status_code article_response)
        \<and> article_body (soup article_response) = Some paragraphs
        \<and> extract_fuel_prices (clock e) (py_join '' '' (map py_strip paragraphs)) = Some report
        \<and> prices report \<noteq> []
        \<and> net e [GET WAM_FUEL_PRICES_URL, GET article_url] (POST (TRIPXL_API_URL e) report)
            = Inr post_response
        \<and> \<not> error_status (status_code post_response))"
proof
  assume "fst (run_scraper e)"
  then have r0: "case net e [] (GET WAM_FUEL_PRICES_URL) of
        Inl err \<Rightarrow> False
      | Inr response \<Rightarrow>
          \<not> error_status (status_code response) \<and>
          (case latest_article (cards (soup response)) of
             None \<Rightarrow> False
           | Some latest \<Rightarrow>
               (case article_url_of (link latest) of
                  Inl err \<Rightarrow> False
                | Inr article_url \<Rightarrow>
                    (case net e [GET WAM_FUEL_PRICES_URL] (GET article_url) of
                       Inl err \<Rightarrow> False
                     | Inr article_response \<Rightarrow>
                         \<not> error_status (status_code article_response) \<and>
                         (case article_body (soup article_response) of
                            None \<Rightarrow> False
                          | Some paragraphs \<Rightarrow>
                              (case extract_fuel_prices (clock e)
                                      (py_join '' '' (map py_strip paragraphs)) of
                                 None \<Rightarrow> False
                               | Some report \<Rightarrow>
                                   (case net e [GET WAM_FUEL_PRICES_URL, GET article_url]
                                           (POST (TRIPXL_API_URL e) report) of
                                      Inl err \<Rightarrow> False
                                    | Inr post_response \<Rightarrow>
                                        \<not> error_status (status_code post_response)))))))"
    unfolding run_outcome .
  obtain response where n1: "net e [] (GET WAM_FUEL_PRICES_URL) = Inr response"
    using r0 by (cases "net e [] (GET WAM_FUEL_PRICES_URL)") auto
  from r0 n1 have ok1: "\<not> error_status (status_code response)" by simp
  obtain latest where la: "latest_article (cards (soup response)) = Some latest"
    using r0 n1 by (cases "latest_article (cards (soup response))") auto
  obtain article_url where url: "article_url_of (link latest) = Inr article_url"
    using r0 n1 la by (cases "article_url_of (link latest)") auto
  obtain article_response
    where n2: "net e [GET WAM_FUEL_PRICES_URL] (GET article_url) = Inr article_response"
    using r0 n1 la url by (cases "net e [GET WAM_FUEL_PRICES_URL] (GET article_url)") auto
  from r0 n1 la url n2 have ok2: "\<not> error_status (status_code article_response)" by simp
  obtain paragraphs where body: "article_body (soup article_response) = Some paragraphs"
    using r0 n1 la url n2 by (cases "article_body (soup article_response)") auto
  obtain report
    where rep: "extract_fuel_prices (clock e) (py_join '' '' (map py_strip paragraphs)) = Some report"
    using r0 n1 la url n2 body
    by (cases "extract_fuel_prices (clock e) (py_join '' '' (map py_strip paragraphs))") auto
  obtain post_response
    where n3: "net e [GET WAM_FUEL_PRICES_URL, GET article_url] (POST (TRIPXL_API_URL e) report)
                = Inr post_response"
    using r0 n1 la url n2 body rep
    by (cases "net e [GET WAM_FUEL_PRICES_URL, GET article_url] (POST (TRIPXL_API_URL e) report)") auto
  from r0 n1 la url n2 body rep n3 have ok3: "\<not> error_status (status_code post_response)" by simp
  from rep have "prices report \<noteq> []" by (auto simp: extract_fuel_prices_Some)
  with n1 ok1 la url n2 ok2 body rep n3 ok3
  show "\<exists>response latest article_url article_response paragraphs report post_response.
        net e [] (GET WAM_FUEL_PRICES_URL) = Inr response
        \<and> \<not> error_status (status_code response)
        \<and> latest_article (cards (soup response)) = Some latest
        \<and> article_url_of (link latest) = Inr article_url
        \<and> net e [GET WAM_FUEL_PRICES_URL] (GET article_url) = Inr article_response
        \<and> \<not> error_status (status_code article_response)
        \<and> article_body (soup article_response) = Some paragraphs
        \<and> extract_fuel_prices (clock e) (py_join '' '' (map py_strip paragraphs)) = Some report
        \<and> prices report \<noteq> []
        \<and> net e [GET WAM_FUEL_PRICES_URL, GET article_url] (POST (TRIPXL_API_URL e) report)
            = Inr post_response
        \<and> \<not> error_status (status_code post_response)"
    by blast
next
  assume "\<exists>response latest article_url article_response paragraphs report post_response.
        net e [] (GET WAM_FUEL_PRICES_URL) = Inr response
        \<and> \<not> error_status (status_code response)
        \<and> latest_article (cards (soup response)) = Some latest
        \<and> article_url_of (link latest) = Inr article_url
        \<and> net e [GET WAM_FUEL_PRICES_URL] (GET article_url) = Inr article_response
        \<and> \<not> error_status (status_code article_response)
        \<and> article_body (soup article_response) = Some paragraphs
        \<and> extract_fuel_prices (clock e) (py_join '' '' (map py_strip paragraphs)) = Some report
        \<and> prices report \<noteq> []
        \<and> net e [GET WAM_FUEL_PRICES_URL, GET article_url] (POST (TRIPXL_API_URL e) report)
            = Inr post_response
        \<and> \<not> error_status (status_code post_response)"
  then show "fst (run_scraper e)"
    unfolding run_outcome by auto
qed

lemma demo_fixed:
  "\<not> error_status (status_code demo_listing)"
  "latest_article (cards (soup demo_listing)) = Some demo_latest"
  "article_url_of (link demo_latest) = Inr ''https://wam.ae/en/details/1''"
  "\<not> error_status (status_code demo_article)"
  "article_body (soup demo_article) = Some demo_paragraphs"
proof -
  show "\<not> error_status (status_code demo_listing)"
    by (simp add: demo_listing_def error_status_def)
  have "latest_article demo_cards = Some demo_latest"
    by code_simp
  then show "latest_article (cards (soup demo_listing)) = Some demo_latest"
    by (simp add: demo_listing_def)
  show "article_url_of (link demo_latest) = Inr ''https://wam.ae/en/details/1''"
    by (simp add: demo_latest_def article_url_of_def startswith_def)
  show "\<not> error_status (status_code demo_article)"
    by (simp add: demo_article_def error_status_def)
  show "article_body (soup demo_article) = Some demo_paragraphs"
    by (simp add: demo_article_def)
qed

lemma demo_stages:
  "net (demo_env s) [] (GET WAM_FUEL_PRICES_URL) = Inr demo_listing"
  "net (demo_env s) [GET WAM_FUEL_PRICES_URL] (GET ''https://wam.ae/en/details/1'') = Inr demo_article"
  "extract_fuel_prices (clock (demo_env s)) (py_join '' '' (map py_strip demo_paragraphs))
     = Some demo_report"
  "net (demo_env s) [GET WAM_FUEL_PRICES_URL, GET ''https://wam.ae/en/details/1'']
     (POST (TRIPXL_API_URL (demo_env s)) demo_report) = Inr (demo_answer s)"
proof -
  show "net (demo_env s) [] (GET WAM_FUEL_PRICES_URL) = Inr demo_listing"
    by (simp add: demo_env_def demo_net_def WAM_FUEL_PRICES_URL_def demo_listing_def)
  show "net (demo_env s) [GET WAM_FUEL_PRICES_URL] (GET ''https://wam.ae/en/details/1'') = Inr demo_article"
    by (simp add: demo_env_def demo_net_def demo_article_def demo_paragraphs_def)
  have "extract_fuel_prices ''2024-07-01T06:00:00+00:00'' (py_join '' '' (map py_strip demo_paragraphs))
     = Some demo_report"
    by code_simp
  then show "extract_fuel_prices (clock (demo_env s)) (py_join '' '' (map py_strip demo_paragraphs))
     = Some demo_report"
    by (simp add: demo_env_def)
  show "net (demo_env s) [GET WAM_FUEL_PRICES_URL, GET ''https://wam.ae/en/details/1'']
     (POST (TRIPXL_API_URL (demo_env s)) demo_report) = Inr (demo_answer s)"
    by (simp add: demo_env_def demo_net_def demo_answer_def)
qed

subsection \<open>Finding and slicing\<close>

lemma py_slice_nat: "py_slice s (int i) (int i + int k) = take k (drop i s)"
proof (cases "i \<le> length s")
  case True
  then show ?thesis
    by (auto simp: py_slice_def Let_def min_def)
next
  case False
  then show ?thesis
    by (auto simp: py_slice_def Let_def min_def)
qed

lemma py_find_range: "py_find s sub = - 1 \<or> 0 \<le> py_find s sub"
  by (induction s) (auto simp: Let_def)

lemma py_find_in: "(py_find s sub \<noteq> - 1) = py_in sub s"
proof (induction s)
  case Nil
  then show ?case by simp
next
  case (Cons c s)
  then show ?case using py_find_range[of s sub] by (auto simp: Let_def)
qed



subsection \<open>Splitting into words, and the strings that \<open>py_float\<close> reads\<close>


lemma decimal_not_sep: "is_decimal c \<Longrightarrow> c \<noteq> CHR ''.'' \<and> c \<noteq> CHR '',''"
  by (auto simp: is_decimal_def cp_def)





lemma split_acc_only_spaces:
  "list_all py_isspace b \<Longrightarrow> split_acc b w = split_acc [] w"
  by (induction b arbitrary: w) auto

lemma split_acc_trailing:
  "list_all py_isspace b \<Longrightarrow> split_acc (a @ b) w = split_acc a w"
proof (induction a arbitrary: w)
  case Nil
  then show ?case using split_acc_only_spaces[of b w] by simp
next
  case (Cons c a)
  then show ?case by simp
qed

lemma split_acc_dropWhile: "split_acc (dropWhile py_isspace s) [] = split_acc s []"
  by (induction s) auto

lemma py_split_strip: "py_split (py_strip s) = py_split s"
proof -
  define t where "t = dropWhile py_isspace s"
  have "t = rev (dropWhile py_isspace (rev t)) @ rev (takeWhile py_isspace (rev t))"
    by (metis rev_append rev_rev_ident takeWhile_dropWhile_id)
  moreover have "list_all py_isspace (rev (takeWhile py_isspace (rev t)))"
    by (simp add: list_all_iff) (meson set_takeWhileD)
  ultimately have "split_acc (rev (dropWhile py_isspace (rev t))) [] = split_acc t []"
    using split_acc_trailing by metis
  then show ?thesis
    by (simp add: py_split_def py_strip_def t_def split_acc_dropWhile)
qed



lemma py_replace_decimal:
  "list_all is_decimal ds \<Longrightarrow> c = CHR ''.'' \<or> c = CHR '','' \<Longrightarrow> py_replace ds c n = ds"
  by (induction ds) (auto simp: py_replace_def dest: decimal_not_sep)

lemma takeWhile_all: "list_all P (takeWhile P xs)"
  by (induction xs) auto



subsection \<open>The pattern search finds the first match\<close>

text \<open>\<open>re_findall\<close>, which follows the scan of the regular expression engine, starts with
  the first match as the specification understands it: leftmost, then longest.\<close>

lemma sep_not_decimal: "c = CHR ''.'' \<or> c = CHR '','' \<Longrightarrow> \<not> is_decimal c"
  by (auto simp: is_decimal_def cp_def)

lemma takeWhile_decimal_run:
  "list_all is_decimal ds \<Longrightarrow> \<not> is_decimal c \<Longrightarrow> takeWhile is_decimal (ds @ c # r) = ds"
  by (induction ds) auto

lemma dropWhile_decimal_run:
  "list_all is_decimal ds \<Longrightarrow> \<not> is_decimal c \<Longrightarrow> dropWhile is_decimal (ds @ c # r) = c # r"
  by (induction ds) auto

lemma takeWhile_decimal_prefix:
  "list_all is_decimal fs \<Longrightarrow> takeWhile is_decimal (fs @ u) = fs @ takeWhile is_decimal u"
  by (induction fs) auto

lemma dropWhile_decimal_prefix:
  "list_all is_decimal fs \<Longrightarrow> dropWhile is_decimal (fs @ u) = dropWhile is_decimal u"
  by (induction fs) auto

lemma is_match_iff:
  "is_match m =
     (\<exists>ds c fs. m = ds @ c # fs \<and> ds \<noteq> [] \<and> list_all is_decimal ds
        \<and> (c = CHR ''.'' \<or> c = CHR '','') \<and> fs \<noteq> [] \<and> list_all is_decimal fs)"
proof
  assume a: "is_match m"
  then obtain c fs where d: "dropWhile is_decimal m = c # fs"
    and c: "c = CHR ''.'' \<or> c = CHR '',''" and fs: "fs \<noteq> []" "list_all is_decimal fs"
    and ne: "takeWhile is_decimal m \<noteq> []"
    by (auto simp: is_match_def split: list.splits)
  have "m = takeWhile is_decimal m @ c # fs"
    using d by (metis takeWhile_dropWhile_id)
  with c fs ne takeWhile_all[of is_decimal m] show
    "\<exists>ds c fs. m = ds @ c # fs \<and> ds \<noteq> [] \<and> list_all is_decimal ds
        \<and> (c = CHR ''.'' \<or> c = CHR '','') \<and> fs \<noteq> [] \<and> list_all is_decimal fs"
    by blast
next
  assume "\<exists>ds c fs. m = ds @ c # fs \<and> ds \<noteq> [] \<and> list_all is_decimal ds
        \<and> (c = CHR ''.'' \<or> c = CHR '','') \<and> fs \<noteq> [] \<and> list_all is_decimal fs"
  then obtain ds c fs where m: "m = ds @ c # fs" and ds: "ds \<noteq> []" "list_all is_decimal ds"
    and c: "c = CHR ''.'' \<or> c = CHR '',''" and fs: "fs \<noteq> []" "list_all is_decimal fs"
    by blast
  from c have nc: "\<not> is_decimal c" by (rule sep_not_decimal)
  show "is_match m"
    unfolding is_match_def m
    using ds fs c by (simp add: takeWhile_decimal_run[OF ds(2) nc] dropWhile_decimal_run[OF ds(2) nc])
qed

lemma match_at_run:
  assumes "ds \<noteq> []" "list_all is_decimal ds" "c = CHR ''.'' \<or> c = CHR '',''"
    "fs \<noteq> []" "list_all is_decimal fs"
  shows "match_at (ds @ c # fs @ u) =
           Some (ds @ c # fs @ takeWhile is_decimal u, dropWhile is_decimal u)"
proof -
  from assms(3) have nc: "\<not> is_decimal c" by (rule sep_not_decimal)
  show ?thesis
    unfolding match_at_def Let_def
    using assms
    by (auto simp: takeWhile_decimal_run[OF assms(2) nc] dropWhile_decimal_run[OF assms(2) nc]
        takeWhile_decimal_prefix dropWhile_decimal_prefix)
qed

lemma match_at_Some:
  assumes "match_at s = Some (m, rest)"
  shows "s = m @ rest \<and> is_match m"
proof -
  from assms obtain c r where d: "dropWhile is_decimal s = c # r"
    and ne: "takeWhile is_decimal s \<noteq> []" and c: "c = CHR '','' \<or> c = CHR ''.''"
    and ne2: "takeWhile is_decimal r \<noteq> []"
    and m: "m = takeWhile is_decimal s @ c # takeWhile is_decimal r"
    and rest: "rest = dropWhile is_decimal r"
    by (auto simp: match_at_def Let_def split: if_splits list.splits)
  have "s = takeWhile is_decimal s @ c # r"
    using d by (metis takeWhile_dropWhile_id)
  then have "s = m @ rest"
    using m rest by simp
  moreover have "is_match m"
    unfolding is_match_iff using m ne ne2 c takeWhile_all[of is_decimal] by blast
  ultimately show ?thesis by simp
qed

lemma is_match_take_match_at:
  assumes "is_match (take k s)"
  shows "\<exists>m rest. match_at s = Some (m, rest) \<and> length (take k s) \<le> length m"
proof -
  from assms obtain ds c fs where t: "take k s = ds @ c # fs" and ds: "ds \<noteq> []" "list_all is_decimal ds"
    and c: "c = CHR ''.'' \<or> c = CHR '',''" and fs: "fs \<noteq> []" "list_all is_decimal fs"
    unfolding is_match_iff by blast
  have "s = ds @ c # fs @ drop k s"
    using t by (metis append_take_drop_id append.assoc append_Cons)
  then have "match_at s = Some (ds @ c # fs @ takeWhile is_decimal (drop k s),
      dropWhile is_decimal (drop k s))"
    using match_at_run[OF ds c fs, of "drop k s"] by simp
  then show ?thesis using t by simp
qed

lemma longest_match_is_match: "longest_match s n = Some m \<Longrightarrow> is_match m"
  by (induction n) (auto split: if_splits)

lemma longest_match_found:
  "is_match (take j s) \<Longrightarrow> 0 < j \<Longrightarrow> j \<le> n
   \<Longrightarrow> (\<forall>k. j < k \<and> k \<le> n \<longrightarrow> \<not> is_match (take k s))
   \<Longrightarrow> longest_match s n = Some (take j s)"
proof (induction n)
  case 0
  then show ?case by simp
next
  case (Suc n)
  show ?case
  proof (cases "j = Suc n")
    case True
    with Suc.prems show ?thesis by simp
  next
    case False
    with Suc.prems have "\<not> is_match (take (Suc n) s)" and "j \<le> n" by auto
    with Suc show ?thesis by simp
  qed
qed

lemma longest_match_none:
  "(\<forall>k. \<not> is_match (take k s)) \<Longrightarrow> longest_match s n = None"
  by (induction n) auto

lemma longest_match_match_at:
  "longest_match s (length s) = map_option fst (match_at s)"
proof (cases "match_at s")
  case None
  then have "\<forall>k. \<not> is_match (take k s)"
    using is_match_take_match_at by fastforce
  with None show ?thesis by (simp add: longest_match_none)
next
  case (Some mr)
  obtain m rest where mr: "mr = (m, rest)" by (cases mr)
  from match_at_Some[OF Some[unfolded mr]] have s: "s = m @ rest" and im: "is_match m" by auto
  from im have ne: "m \<noteq> []" unfolding is_match_iff by auto
  have tk: "take (length m) s = m" using s by simp
  have "\<forall>k. length m < k \<and> k \<le> length s \<longrightarrow> \<not> is_match (take k s)"
  proof (intro allI impI notI)
    fix k assume k: "length m < k \<and> k \<le> length s" and "is_match (take k s)"
    from is_match_take_match_at[OF this(2)] Some mr have "length (take k s) \<le> length m" by auto
    with k show False by simp
  qed
  then have "longest_match s (length s) = Some (take (length m) s)"
    using longest_match_found[of "length m" s "length s"] im tk ne s by simp
  with Some mr tk show ?thesis by simp
qed

lemma first_match_re_findall:
  "first_match s = (case re_findall s of [] \<Rightarrow> None | m # ms \<Rightarrow> Some m)"
proof (induction s)
  case Nil
  then show ?case by simp
next
  case (Cons c s)
  have "longest_match (c # s) (Suc (length s)) = map_option fst (match_at (c # s))"
    using longest_match_match_at[of "c # s"] by simp
  with Cons show ?case
    by (cases "match_at (c # s)") (auto split: list.splits)
qed

lemma match_float:
  assumes "is_match m"
  shows "\<exists>v. py_float (py_replace m (CHR '','') ''.'') = Inr v"
proof -
  from assms obtain ds c fs where m: "m = ds @ c # fs" and ds: "ds \<noteq> []" "list_all is_decimal ds"
    and c: "c = CHR ''.'' \<or> c = CHR '',''" and fs: "fs \<noteq> []" "list_all is_decimal fs"
    unfolding is_match_iff by blast
  have "py_replace m (CHR '','') ''.'' = ds @ CHR ''.'' # fs"
    unfolding m using c ds fs py_replace_decimal[of ds "CHR '',''" "''.''"]
      py_replace_decimal[of fs "CHR '',''" "''.''"]
    by (auto simp: py_replace_def)
  moreover have "\<not> is_decimal (CHR ''.'')" by (simp add: sep_not_decimal)
  ultimately show ?thesis
    using ds fs
    by (simp add: py_float_def Let_def takeWhile_decimal_run dropWhile_decimal_run)
qed

subsection \<open>The price near a label\<close>

lemma find_price_window:
  assumes "py_find t key = int p"
  shows "find_price t key =
     (case (if py_in ''aed'' (take 100 (drop p t)) then aed_price (take 100 (drop p t)) else Inr None) of
        Inl e \<Rightarrow> Inl e
      | Inr (Some price) \<Rightarrow> Inr (Some price)
      | Inr None \<Rightarrow> regex_price (take 100 (drop p t)))"
proof -
  have "py_slice t (int p) (int p + 100) = take 100 (drop p t)"
    using py_slice_nat[of t p 100] by simp
  with assms show ?thesis
    by (simp add: find_price_def Let_def)
qed

lemma regex_price_first_match:
  "regex_price w =
     (case first_match w of
        None \<Rightarrow> Inr None
      | Some m \<Rightarrow> (case py_float (py_replace m (CHR '','') ''.'') of
                     Inl e \<Rightarrow> Inl e | Inr v \<Rightarrow> Inr (Some v)))"
  by (simp add: regex_price_def first_match_re_findall split: list.splits)

lemma first_match_is_match: "first_match s = Some m \<Longrightarrow> is_match m"
proof (induction s)
  case Nil
  then show ?case by simp
next
  case (Cons c s)
  show ?case
  proof (cases "longest_match (c # s) (Suc (length s))")
    case None
    with Cons show ?thesis by (simp del: longest_match.simps)
  next
    case (Some m')
    with Cons.prems have "m' = m" by (simp del: longest_match.simps)
    with Some show ?thesis using longest_match_is_match by blast
  qed
qed


subsection \<open>A window without the marker and a number\<close>

lemma after_first_find:
  "after_first sub s =
     (if py_find s sub = - 1 then None else Some (drop (nat (py_find s sub) + length sub) s))"
proof (induction s)
  case Nil
  then show ?case by simp
next
  case (Cons c s)
  show ?case
  proof (cases "prefix sub (c # s)")
    case True
    then show ?thesis by simp
  next
    case False
    with Cons py_find_range[of s sub] show ?thesis
      by (auto simp: Let_def nat_add_distrib)
  qed
qed

lemma no_aed_no_number: "\<not> py_in ''aed'' w \<Longrightarrow> \<not> aed_number w"
  using py_find_in[of w "''aed''"] by (simp add: aed_number_def after_first_find)

lemma first_number_unreadable:
  "list_all (\<lambda>word. isl (py_float word)) ws
   \<Longrightarrow> (\<exists>err. first_number ws = Inl err) \<or> first_number ws = Inr None"
  by (induction ws) (auto split: sum.splits)

lemma aed_price_no_number:
  assumes "py_in ''aed'' w" and "\<not> aed_number w"
  shows "(\<exists>err. aed_price w = Inl err) \<or> aed_price w = Inr None"
proof -
  define p where "p = nat (py_find w ''aed'')"
  from assms(1) py_find_in[of w "''aed''"] py_find_range[of w "''aed''"]
  have pos: "py_find w ''aed'' = int p" and found: "py_find w ''aed'' \<noteq> - 1"
    by (auto simp: p_def)
  have seg: "py_slice w (int p + 3) (int p + 10) = take 7 (drop (p + 3) w)"
    using py_slice_nat[of w "p + 3" 7] by (simp add: algebra_simps)
  have "nat (py_find w ''aed'') + length ''aed'' = p + 3"
    by (simp add: p_def)
  with found have "after_first ''aed'' w = Some (drop (p + 3) w)"
    unfolding after_first_find by (simp only: if_False)
  with assms(2) have "list_all (\<lambda>word. isl (py_float word)) (py_split (take 7 (drop (p + 3) w)))"
    by (simp add: aed_number_def list_all_iff list_ex_iff)
  then show ?thesis
    unfolding aed_price_def Let_def pos seg py_split_strip
    by (rule first_number_unreadable)
qed

lemma find_price_no_pattern:
  assumes "py_find t key = int p"
    and "\<not> aed_number (take 100 (drop p t))"
    and "first_match (take 100 (drop p t)) = None"
  shows "(\<exists>err. find_price t key = Inl err) \<or> find_price t key = Inr None"
proof (cases "py_in ''aed'' (take 100 (drop p t))")
  case True
  from aed_price_no_number[OF True assms(2)] assms(3) True show ?thesis
    by (auto simp: find_price_window[OF assms(1)] regex_price_first_match)
next
  case False
  with assms(3) show ?thesis
    by (simp add: find_price_window[OF assms(1)] regex_price_first_match)
qed

section \<open>The claims\<close>

text \<open>
  Claim C3. A price report comes out of \<open>extract_fuel_prices\<close> exactly when the extracted
  price list is not empty, and then carries that list; with an empty list the result is
  \<^verbatim>\<open>None\<close>. Given \<^verbatim>\<open>None\<close>, the publisher returns failure and leaves the trace of
  requests as it was: no POST. Every POST of a run carries a report with prices.
\<close>
theorem price_report_only_if_prices:
  "(extract_fuel_prices now article_text \<noteq> None) = (extract_prices article_text \<noteq> [])
   \<and> (extract_prices article_text = [] \<longrightarrow> extract_fuel_prices now article_text = None)
   \<and> (\<forall>r. extract_fuel_prices now article_text = Some r \<longrightarrow>
          prices r = extract_prices article_text \<and> prices r \<noteq> [])
   \<and> send_prices_to_tripxl e None trace = (False, trace)
   \<and> (\<forall>url r. POST url r \<in> set (snd (run_scraper e)) \<longrightarrow> prices r \<noteq> [])"
proof -
  have "send_prices_to_tripxl e None trace = (False, trace)"
    by (simp add: send_prices_to_tripxl_def)
  moreover have "\<forall>url r. POST url r \<in> set (snd (run_scraper e)) \<longrightarrow> prices r \<noteq> []"
    using run_posts by blast
  moreover have "\<forall>r. extract_fuel_prices now article_text = Some r \<longrightarrow>
      prices r = extract_prices article_text \<and> prices r \<noteq> []"
    by (simp add: extract_fuel_prices_Some)
  moreover have "(extract_fuel_prices now article_text \<noteq> None) = (extract_prices article_text \<noteq> [])"
    by (simp add: extract_fuel_prices_None)
  moreover have "extract_prices article_text = [] \<longrightarrow> extract_fuel_prices now article_text = None"
    by (simp add: extract_fuel_prices_None)
  ultimately show ?thesis
    by blast
qed

theorem price_report_only_if_prices_witness:
  "extract_prices ''no price here'' = []
   \<and> extract_fuel_prices ''2024-07-01'' ''no price here'' = None
   \<and> send_prices_to_tripxl (demo_env 200) None demo_trace = (False, demo_trace)
   \<and> POST ''http://localhost:5000/api/fuel-types/update'' demo_report \<in> set (snd (run_scraper (demo_env 200)))
   \<and> prices demo_report \<noteq> []"
proof -
  have a: "extract_prices ''no price here'' = []"
    by code_simp
  have b: "POST ''http://localhost:5000/api/fuel-types/update'' demo_report \<in> set (snd (run_scraper (demo_env 200)))"
    by code_simp
  from price_report_only_if_prices[of "''2024-07-01''" "''no price here''" "demo_env 200" demo_trace] a b
  show ?thesis by blast
qed

text \<open>
  Claim C7. When the value found for a fuel type is exactly 0, or \<^verbatim>\<open>float\<close> raised, its
  code is not a key of the price list; and every value in the price list, and so in
  the returned report, is strictly positive.
\<close>
theorem zero_or_failure_is_absent:
  "((key, code) \<in> set FUEL_TYPE_MAPPING \<and>
      (find_price (py_lower article_text) key = Inr (Some 0)
       \<or> find_price (py_lower article_text) key = Inl err)
     \<longrightarrow> code \<notin> fst ` set (extract_prices article_text))
   \<and> (\<forall>c v. (c, v) \<in> set (extract_prices article_text) \<longrightarrow> 0 < v)
   \<and> (\<forall>r c v. extract_fuel_prices now article_text = Some r \<and> (c, v) \<in> set (prices r) \<longrightarrow> 0 < v)"
proof -
  have "code \<notin> fst ` set (extract_prices article_text)"
    if k: "(key, code) \<in> set FUEL_TYPE_MAPPING"
      and f: "find_price (py_lower article_text) key = Inr (Some 0)
              \<or> find_price (py_lower article_text) key = Inl err"
  proof -
    from extract_prices_lookup[OF k, of article_text] f
    have "map_of (extract_prices article_text) code = None" by auto
    then show ?thesis by (simp add: map_of_eq_None_iff)
  qed
  moreover have "\<forall>c v. (c, v) \<in> set (extract_prices article_text) \<longrightarrow> 0 < v"
    using extract_prices_positive by blast
  ultimately show ?thesis
    by (auto simp: extract_fuel_prices_Some)
qed

theorem zero_or_failure_is_absent_witness:
  "(''diesel'', ''DIESEL'') \<in> set FUEL_TYPE_MAPPING
   \<and> find_price (py_lower ''Diesel AED 0.00'') ''diesel'' = Inr (Some 0)
   \<and> ''DIESEL'' \<notin> fst ` set (extract_prices ''Diesel AED 0.00'')
   \<and> (''DIESEL'', 14 / 5) \<in> set (extract_prices ''diesel aed 2.80'')
   \<and> (0::rat) < 14 / 5"
proof -
  have a: "(''diesel'', ''DIESEL'') \<in> set FUEL_TYPE_MAPPING"
    by (simp add: FUEL_TYPE_MAPPING_def)
  have b: "find_price (py_lower ''Diesel AED 0.00'') ''diesel'' = Inr (Some 0)"
    by code_simp
  have c: "(''DIESEL'', 14 / 5) \<in> set (extract_prices ''diesel aed 2.80'')"
    by code_simp
  from zero_or_failure_is_absent[of "''diesel''" "''DIESEL''" "''Diesel AED 0.00''" ValueError "''now''"] a b
  have "''DIESEL'' \<notin> fst ` set (extract_prices ''Diesel AED 0.00'')" by blast
  moreover from zero_or_failure_is_absent[of "''diesel''" "''DIESEL''" "''diesel aed 2.80''" ValueError "''now''"] c
  have "(0::rat) < 14 / 5" by blast
  ultimately show ?thesis using a b c by blast
qed

text \<open>
  Claim C8. An exception raised while the price of one fuel type is extracted does not
  keep another fuel type from its entry: when the extraction for \<open>key\<close> raises and the
  one for \<open>key'\<close> yields a price that is not zero, the price list, and the report, hold
  that price under the code of \<open>key'\<close>, and nothing under the code of \<open>key\<close>.
\<close>
theorem exception_does_not_stop_the_loop:
  assumes "(key, code) \<in> set FUEL_TYPE_MAPPING"
    and "find_price (py_lower article_text) key = Inl err"
    and "(key', code') \<in> set FUEL_TYPE_MAPPING"
    and "find_price (py_lower article_text) key' = Inr (Some price)"
    and "price \<noteq> 0"
  shows "map_of (extract_prices article_text) code' = Some price
       \<and> map_of (extract_prices article_text) code = None
       \<and> (\<exists>r. extract_fuel_prices now article_text = Some r
              \<and> map_of (prices r) code' = Some price)"
proof -
  from extract_prices_lookup[OF assms(3), of article_text] assms(4,5)
  have a: "map_of (extract_prices article_text) code' = Some price" by simp
  from extract_prices_lookup[OF assms(1), of article_text] assms(2)
  have b: "map_of (extract_prices article_text) code = None" by simp
  from a have "extract_prices article_text \<noteq> []" by auto
  with a b show ?thesis by (simp add: extract_fuel_prices_Some)
qed

theorem exception_does_not_stop_the_loop_witness:
  "find_price (py_lower ''special 95 aed 1.2.3 diesel aed 2.80'') ''special 95'' = Inl ValueError
   \<and> find_price (py_lower ''special 95 aed 1.2.3 diesel aed 2.80'') ''diesel'' = Inr (Some (14 / 5))
   \<and> map_of (extract_prices ''special 95 aed 1.2.3 diesel aed 2.80'') ''DIESEL'' = Some (14 / 5)
   \<and> map_of (extract_prices ''special 95 aed 1.2.3 diesel aed 2.80'') ''PETROL'' = None"
proof -
  have a: "(''special 95'', ''PETROL'') \<in> set FUEL_TYPE_MAPPING"
    and b: "(''diesel'', ''DIESEL'') \<in> set FUEL_TYPE_MAPPING"
    by (simp_all add: FUEL_TYPE_MAPPING_def)
  have c: "find_price (py_lower ''special 95 aed 1.2.3 diesel aed 2.80'') ''special 95'' = Inl ValueError"
    by code_simp
  have d: "find_price (py_lower ''special 95 aed 1.2.3 diesel aed 2.80'') ''diesel'' = Inr (Some (14 / 5))"
    by code_simp
  have e: "(14 / 5 :: rat) \<noteq> 0" by simp
  from exception_does_not_stop_the_loop[OF a c b d e] c d show ?thesis by blast
qed

text \<open>
  Claim C10. On every text \<open>extract_fuel_prices\<close> returns (the model is a total function
  in which every exception of the source is a value that the loop catches), and the
  result is \<^verbatim>\<open>None\<close> or a report whose price list is not empty, has its keys among
  PETROL, SUPER, EPLUS and DIESEL, holds each key once, so four entries at most, and
  that carries the date and the fixed source label.
\<close>
theorem extract_fuel_prices_total:
  "extract_fuel_prices now article_text = None
   \<or> (\<exists>r. extract_fuel_prices now article_text = Some r
          \<and> prices r \<noteq> []
          \<and> fst ` set (prices r) \<subseteq> {''PETROL'', ''SUPER'', ''EPLUS'', ''DIESEL''}
          \<and> distinct (map fst (prices r))
          \<and> length (prices r) \<le> 4
          \<and> date r = now
          \<and> source r = ''WAM (Emirates News Agency)'')"
  using extract_prices_keys[of article_text] extract_prices_distinct[of article_text]
    extract_prices_length[of article_text]
  by (simp add: extract_fuel_prices_def Let_def)

theorem extract_fuel_prices_total_witness:
  "extract_fuel_prices ''2024-07-01'' ''diesel aed 2.80'' \<noteq> None
   \<and> length (prices (the (extract_fuel_prices ''2024-07-01'' ''diesel aed 2.80''))) \<le> 4"
proof -
  have a: "extract_fuel_prices ''2024-07-01'' ''diesel aed 2.80'' \<noteq> None"
    by code_simp
  from extract_fuel_prices_total[of "''2024-07-01''" "''diesel aed 2.80''"] a
  show ?thesis by auto
qed

text \<open>
  Claim C2. The selector keeps exactly the cards that have a title, a date and a link
  element and whose stripped, lower-cased title contains "fuel price" or "petrol price"
  and also "announce" or "set"; every other card is discarded. It selects nothing exactly
  when no card is kept, and otherwise a kept card whose date text (the stripped text of
  the date element, compared as a string, code point by code point) is greatest among the
  kept cards. So a card that does not match is never selected, whatever its date.
\<close>
theorem selector_filters_then_takes_latest:
  "(\<forall>a \<in> set (fuel_price_articles cs).
      (py_in ''fuel price'' (title a) \<or> py_in ''petrol price'' (title a))
      \<and> (py_in ''announce'' (title a) \<or> py_in ''set'' (title a))
      \<and> (\<exists>c \<in> set cs. \<exists>t d.
            title_elem c = Some t \<and> date_elem c = Some d \<and> link_elem c = Some (link a)
            \<and> title a = py_lower (py_strip t) \<and> date_text a = py_strip d))
   \<and> (\<forall>c \<in> set cs. \<forall>t d href.
        title_elem c = Some t \<and> date_elem c = Some d \<and> link_elem c = Some href
        \<and> (py_in ''fuel price'' (py_lower (py_strip t)) \<or> py_in ''petrol price'' (py_lower (py_strip t)))
        \<and> (py_in ''announce'' (py_lower (py_strip t)) \<or> py_in ''set'' (py_lower (py_strip t)))
        \<longrightarrow> \<lparr>title = py_lower (py_strip t), date_text = py_strip d, link = href\<rparr>
              \<in> set (fuel_price_articles cs))
   \<and> ((latest_article cs = None) = (fuel_price_articles cs = []))
   \<and> (\<forall>a. latest_article cs = Some a \<longrightarrow>
         a \<in> set (fuel_price_articles cs)
         \<and> (\<forall>b \<in> set (fuel_price_articles cs). date_text b \<le> date_text a))"
proof -
  have "\<forall>a. latest_article cs = Some a \<longrightarrow>
         a \<in> set (fuel_price_articles cs)
         \<and> (\<forall>b \<in> set (fuel_price_articles cs). date_text b \<le> date_text a)"
    using latest_article_Some by blast
  moreover note latest_article_None[of cs]
  moreover have "\<forall>a \<in> set (fuel_price_articles cs).
      (py_in ''fuel price'' (title a) \<or> py_in ''petrol price'' (title a))
      \<and> (py_in ''announce'' (title a) \<or> py_in ''set'' (title a))
      \<and> (\<exists>c \<in> set cs. \<exists>t d.
            title_elem c = Some t \<and> date_elem c = Some d \<and> link_elem c = Some (link a)
            \<and> title a = py_lower (py_strip t) \<and> date_text a = py_strip d)"
    unfolding fuel_price_articles_set is_announcement_def by fastforce
  moreover have "\<forall>c \<in> set cs. \<forall>t d href.
        title_elem c = Some t \<and> date_elem c = Some d \<and> link_elem c = Some href
        \<and> (py_in ''fuel price'' (py_lower (py_strip t)) \<or> py_in ''petrol price'' (py_lower (py_strip t)))
        \<and> (py_in ''announce'' (py_lower (py_strip t)) \<or> py_in ''set'' (py_lower (py_strip t)))
        \<longrightarrow> \<lparr>title = py_lower (py_strip t), date_text = py_strip d, link = href\<rparr>
              \<in> set (fuel_price_articles cs)"
    unfolding fuel_price_articles_set is_announcement_def by blast
  ultimately show ?thesis by blast
qed

theorem selector_filters_then_takes_latest_witness:
  "latest_article demo_cards =
     Some \<lparr>title = ''fuel prices announced for next month'', date_text = ''2024-06-30'',
           link = Some ''/en/details/1''\<rparr>
   \<and> fuel_price_articles demo_cards =
       [\<lparr>title = ''fuel prices announced for next month'', date_text = ''2024-06-30'',
         link = Some ''/en/details/1''\<rparr>]
   \<and> (py_in ''fuel price'' ''fuel prices announced for next month''
        \<or> py_in ''petrol price'' ''fuel prices announced for next month'')
   \<and> (py_in ''announce'' ''fuel prices announced for next month''
        \<or> py_in ''set'' ''fuel prices announced for next month'')
   \<and> \<not> py_in ''fuel price'' (py_lower (py_strip ''Unrelated news''))
   \<and> \<not> py_in ''petrol price'' (py_lower (py_strip ''Unrelated news''))
   \<and> (''2024-06-30'' :: string) < ''2024-07-01''"
proof -
  have a: "latest_article demo_cards =
     Some \<lparr>title = ''fuel prices announced for next month'', date_text = ''2024-06-30'',
           link = Some ''/en/details/1''\<rparr>"
    by code_simp
  have b: "fuel_price_articles demo_cards =
       [\<lparr>title = ''fuel prices announced for next month'', date_text = ''2024-06-30'',
         link = Some ''/en/details/1''\<rparr>]"
    by code_simp
  have c: "\<not> py_in ''fuel price'' (py_lower (py_strip ''Unrelated news''))"
    "\<not> py_in ''petrol price'' (py_lower (py_strip ''Unrelated news''))"
    "(''2024-06-30'' :: string) < ''2024-07-01''"
    by code_simp+
  from selector_filters_then_takes_latest[of demo_cards]
  have "\<forall>a \<in> set (fuel_price_articles demo_cards).
      (py_in ''fuel price'' (title a) \<or> py_in ''petrol price'' (title a))
      \<and> (py_in ''announce'' (title a) \<or> py_in ''set'' (title a))"
    by blast
  with b have "(py_in ''fuel price'' ''fuel prices announced for next month''
        \<or> py_in ''petrol price'' ''fuel prices announced for next month'')
   \<and> (py_in ''announce'' ''fuel prices announced for next month''
        \<or> py_in ''set'' ''fuel prices announced for next month'')"
    by simp
  with a b c show ?thesis by blast
qed

text \<open>
  Claim C9. A link that is already absolute is to be passed through unchanged, and the
  code does so for a link that starts with \<^verbatim>\<open>https://\<close> in lower case. It fails the claim
  at \<^verbatim>\<open>HTTPS://wam.ae/en/details/1\<close>: this is an absolute URL (a scheme is read in either
  case), yet the test \<^verbatim>\<open>startswith('http')\<close> is false for it and the site origin is put in
  front of it.
\<close>

theorem absolute_link_is_prefixed:
  "is_absolute_url ''HTTPS://wam.ae/en/details/1''
   \<and> article_url_of (Some ''HTTPS://wam.ae/en/details/1'')
       = Inr ''https://wam.aeHTTPS://wam.ae/en/details/1''
   \<and> ''https://wam.aeHTTPS://wam.ae/en/details/1'' \<noteq> ''HTTPS://wam.ae/en/details/1''
   \<and> is_absolute_url ''https://wam.ae/en/details/1''
   \<and> article_url_of (Some ''https://wam.ae/en/details/1'') = Inr ''https://wam.ae/en/details/1''"
  by (simp add: is_absolute_url_def is_alpha_def scheme_char_def is_decimal_def cp_def
      article_url_of_def startswith_def)

text \<open>
  Claim C4, as amended. The exit status is 0 or 1. It is 0 exactly when every stage
  succeeds: the listing is fetched without a transport error and without an error
  status, a card is selected, its link resolves, the article is fetched likewise and
  has a body, a report with prices is extracted, and the POST is answered with a status
  that is not an error status (400..599, the range for which \<^verbatim>\<open>raise_for_status\<close>
  raises). It is 1 when the listing cannot be fetched, when no card is an announcement,
  when the article cannot be fetched, has no body or yields no prices, and when the POST
  fails or is answered with an error status. A 2xx answer to the POST of a report
  gives 0.
\<close>
theorem exit_status_of_a_run:
  "(exit_status e = 0 \<or> exit_status e = 1)
   \<and> (exit_status e = 0) =
       (\<exists>response latest article_url article_response paragraphs report post_response.
          net e [] (GET WAM_FUEL_PRICES_URL) = Inr response
          \<and> \<not> error_status (status_code response)
          \<and> latest_article (cards (soup response)) = Some latest
          \<and> article_url_of (link latest) = Inr article_url
          \<and> net e [GET WAM_FUEL_PRICES_URL] (GET article_url) = Inr article_response
          \<and> \<not> error_status (status_code article_response)
          \<and> article_body (soup article_response) = Some paragraphs
          \<and> extract_fuel_prices (clock e) (py_join '' '' (map py_strip paragraphs)) = Some report
          \<and> prices report \<noteq> []
          \<and> net e [GET WAM_FUEL_PRICES_URL, GET article_url] (POST (TRIPXL_API_URL e) report)
              = Inr post_response
          \<and> \<not> error_status (status_code post_response))
   \<and> (\<forall>err. net e [] (GET WAM_FUEL_PRICES_URL) = Inl err \<longrightarrow> exit_status e = 1)
   \<and> (\<forall>response. net e [] (GET WAM_FUEL_PRICES_URL) = Inr response
          \<and> error_status (status_code response) \<longrightarrow> exit_status e = 1)
   \<and> (\<forall>response. net e [] (GET WAM_FUEL_PRICES_URL) = Inr response
          \<and> fuel_price_articles (cards (soup response)) = [] \<longrightarrow> exit_status e = 1)
   \<and> (\<forall>response latest article_url.
          net e [] (GET WAM_FUEL_PRICES_URL) = Inr response
          \<and> latest_article (cards (soup response)) = Some latest
          \<and> article_url_of (link latest) = Inr article_url
          \<and> ((\<exists>err. net e [GET WAM_FUEL_PRICES_URL] (GET article_url) = Inl err)
              \<or> (\<exists>article_response.
                    net e [GET WAM_FUEL_PRICES_URL] (GET article_url) = Inr article_response
                    \<and> (error_status (status_code article_response)
                        \<or> article_body (soup article_response) = None
                        \<or> (\<exists>paragraphs. article_body (soup article_response) = Some paragraphs
                              \<and> extract_prices (py_join '' '' (map py_strip paragraphs)) = []))))
          \<longrightarrow> exit_status e = 1)
   \<and> (\<forall>response latest article_url article_response paragraphs report.
          net e [] (GET WAM_FUEL_PRICES_URL) = Inr response
          \<and> latest_article (cards (soup response)) = Some latest
          \<and> article_url_of (link latest) = Inr article_url
          \<and> net e [GET WAM_FUEL_PRICES_URL] (GET article_url) = Inr article_response
          \<and> article_body (soup article_response) = Some paragraphs
          \<and> extract_fuel_prices (clock e) (py_join '' '' (map py_strip paragraphs)) = Some report
          \<and> ((\<exists>err. net e [GET WAM_FUEL_PRICES_URL, GET article_url]
                         (POST (TRIPXL_API_URL e) report) = Inl err)
              \<or> (\<exists>post_response. net e [GET WAM_FUEL_PRICES_URL, GET article_url]
                         (POST (TRIPXL_API_URL e) report) = Inr post_response
                    \<and> error_status (status_code post_response)))
          \<longrightarrow> exit_status e = 1)
   \<and> (\<forall>response latest article_url article_response paragraphs report post_response.
          net e [] (GET WAM_FUEL_PRICES_URL) = Inr response
          \<and> \<not> error_status (status_code response)
          \<and> latest_article (cards (soup response)) = Some latest
          \<and> article_url_of (link latest) = Inr article_url
          \<and> net e [GET WAM_FUEL_PRICES_URL] (GET article_url) = Inr article_response
          \<and> \<not> error_status (status_code article_response)
          \<and> article_body (soup article_response) = Some paragraphs
          \<and> extract_fuel_prices (clock e) (py_join '' '' (map py_strip paragraphs)) = Some report
          \<and> net e [GET WAM_FUEL_PRICES_URL, GET article_url] (POST (TRIPXL_API_URL e) report)
              = Inr post_response
          \<and> success_2xx (status_code post_response)
          \<longrightarrow> exit_status e = 0)"
proof -
  have a: "exit_status e = 0 \<or> exit_status e = 1"
    by (simp add: exit_status_def)
  have b: "(exit_status e = 0) =
       (\<exists>response latest article_url article_response paragraphs report post_response.
          net e [] (GET WAM_FUEL_PRICES_URL) = Inr response
          \<and> \<not> error_status (status_code response)
          \<and> latest_article (cards (soup response)) = Some latest
          \<and> article_url_of (link latest) = Inr article_url
          \<and> net e [GET WAM_FUEL_PRICES_URL] (GET article_url) = Inr article_response
          \<and> \<not> error_status (status_code article_response)
          \<and> article_body (soup article_response) = Some paragraphs
          \<and> extract_fuel_prices (clock e) (py_join '' '' (map py_strip paragraphs)) = Some report
          \<and> prices report \<noteq> []
          \<and> net e [GET WAM_FUEL_PRICES_URL, GET article_url] (POST (TRIPXL_API_URL e) report)
              = Inr post_response
          \<and> \<not> error_status (status_code post_response))"
    unfolding exit_status_run by (rule run_success_iff)
  have c: "\<forall>err. net e [] (GET WAM_FUEL_PRICES_URL) = Inl err \<longrightarrow> exit_status e = 1"
    by (simp add: exit_status_run run_outcome)
  have d: "\<forall>response. net e [] (GET WAM_FUEL_PRICES_URL) = Inr response
          \<and> error_status (status_code response) \<longrightarrow> exit_status e = 1"
    by (simp add: exit_status_run run_outcome)
  have f: "\<forall>response. net e [] (GET WAM_FUEL_PRICES_URL) = Inr response
          \<and> fuel_price_articles (cards (soup response)) = [] \<longrightarrow> exit_status e = 1"
    by (simp add: exit_status_run run_outcome latest_article_None[symmetric])
  have g: "\<forall>response latest article_url.
          net e [] (GET WAM_FUEL_PRICES_URL) = Inr response
          \<and> latest_article (cards (soup response)) = Some latest
          \<and> article_url_of (link latest) = Inr article_url
          \<and> ((\<exists>err. net e [GET WAM_FUEL_PRICES_URL] (GET article_url) = Inl err)
              \<or> (\<exists>article_response.
                    net e [GET WAM_FUEL_PRICES_URL] (GET article_url) = Inr article_response
                    \<and> (error_status (status_code article_response)
                        \<or> article_body (soup article_response) = None
                        \<or> (\<exists>paragraphs. article_body (soup article_response) = Some paragraphs
                              \<and> extract_prices (py_join '' '' (map py_strip paragraphs)) = []))))
          \<longrightarrow> exit_status e = 1"
    by (auto simp: exit_status_run run_outcome extract_fuel_prices_def Let_def)
  have h: "\<forall>response latest article_url article_response paragraphs report.
          net e [] (GET WAM_FUEL_PRICES_URL) = Inr response
          \<and> latest_article (cards (soup response)) = Some latest
          \<and> article_url_of (link latest) = Inr article_url
          \<and> net e [GET WAM_FUEL_PRICES_URL] (GET article_url) = Inr article_response
          \<and> article_body (soup article_response) = Some paragraphs
          \<and> extract_fuel_prices (clock e) (py_join '' '' (map py_strip paragraphs)) = Some report
          \<and> ((\<exists>err. net e [GET WAM_FUEL_PRICES_URL, GET article_url]
                         (POST (TRIPXL_API_URL e) report) = Inl err)
              \<or> (\<exists>post_response. net e [GET WAM_FUEL_PRICES_URL, GET article_url]
                         (POST (TRIPXL_API_URL e) report) = Inr post_response
                    \<and> error_status (status_code post_response)))
          \<longrightarrow> exit_status e = 1"
    by (auto simp: exit_status_run run_outcome)
  have i: "\<forall>response latest article_url article_response paragraphs report post_response.
          net e [] (GET WAM_FUEL_PRICES_URL) = Inr response
          \<and> \<not> error_status (status_code response)
          \<and> latest_article (cards (soup response)) = Some latest
          \<and> article_url_of (link latest) = Inr article_url
          \<and> net e [GET WAM_FUEL_PRICES_URL] (GET article_url) = Inr article_response
          \<and> \<not> error_status (status_code article_response)
          \<and> article_body (soup article_response) = Some paragraphs
          \<and> extract_fuel_prices (clock e) (py_join '' '' (map py_strip paragraphs)) = Some report
          \<and> net e [GET WAM_FUEL_PRICES_URL, GET article_url] (POST (TRIPXL_API_URL e) report)
              = Inr post_response
          \<and> success_2xx (status_code post_response)
          \<longrightarrow> exit_status e = 0"
    by (auto simp: exit_status_run run_outcome success_2xx_def error_status_def)
  from a b c d f g h i show ?thesis by (intro conjI)
qed

theorem exit_status_of_a_run_witness:
  "net (demo_env 500) [] (GET WAM_FUEL_PRICES_URL) = Inr demo_listing
   \<and> latest_article (cards (soup demo_listing)) = Some demo_latest
   \<and> article_url_of (link demo_latest) = Inr ''https://wam.ae/en/details/1''
   \<and> net (demo_env 500) [GET WAM_FUEL_PRICES_URL] (GET ''https://wam.ae/en/details/1'')
       = Inr demo_article
   \<and> article_body (soup demo_article) = Some demo_paragraphs
   \<and> extract_fuel_prices (clock (demo_env 500)) (py_join '' '' (map py_strip demo_paragraphs))
       = Some demo_report
   \<and> net (demo_env 500) [GET WAM_FUEL_PRICES_URL, GET ''https://wam.ae/en/details/1'']
       (POST (TRIPXL_API_URL (demo_env 500)) demo_report) = Inr (demo_answer 500)
   \<and> error_status (status_code (demo_answer 500))
   \<and> exit_status (demo_env 500) = 1
   \<and> success_2xx (status_code (demo_answer 200))
   \<and> exit_status (demo_env 200) = 0"
proof -
  have bad: "error_status (status_code (demo_answer 500))"
    by (simp add: demo_answer_def error_status_def)
  have good: "success_2xx (status_code (demo_answer 200))"
    by (simp add: demo_answer_def success_2xx_def)
  from exit_status_of_a_run[of "demo_env 500"] demo_stages[of 500] demo_fixed bad
  have one: "exit_status (demo_env 500) = 1"
    by blast
  from exit_status_of_a_run[of "demo_env 200"] demo_stages[of 200] demo_fixed good
  have zero: "exit_status (demo_env 200) = 0"
    by blast
  from demo_stages[of 500] demo_fixed bad good one zero show ?thesis
    by blast
qed

text \<open>The claim as stated fails: when the POST is answered with 304, which is not a 2xx
  status, \<^verbatim>\<open>raise_for_status\<close> does not raise and the exit status is 0.\<close>

theorem exit_status_of_a_run_counterexample:
  "net (demo_env 304) [] (GET WAM_FUEL_PRICES_URL) = Inr demo_listing
   \<and> latest_article (cards (soup demo_listing)) = Some demo_latest
   \<and> article_url_of (link demo_latest) = Inr ''https://wam.ae/en/details/1''
   \<and> net (demo_env 304) [GET WAM_FUEL_PRICES_URL] (GET ''https://wam.ae/en/details/1'')
       = Inr demo_article
   \<and> article_body (soup demo_article) = Some demo_paragraphs
   \<and> extract_fuel_prices (clock (demo_env 304)) (py_join '' '' (map py_strip demo_paragraphs))
       = Some demo_report
   \<and> net (demo_env 304) [GET WAM_FUEL_PRICES_URL, GET ''https://wam.ae/en/details/1'']
       (POST (TRIPXL_API_URL (demo_env 304)) demo_report) = Inr (demo_answer 304)
   \<and> status_code (demo_answer 304) = 304
   \<and> \<not> success_2xx 304
   \<and> exit_status (demo_env 304) = 0"
proof -
  have a: "status_code (demo_answer 304) = 304"
    by (simp add: demo_answer_def)
  have b: "\<not> success_2xx 304"
    by (simp add: success_2xx_def)
  have c: "exit_status (demo_env 304) = 0"
    by code_simp
  from demo_stages[of 304] demo_fixed a b c show ?thesis
    by blast
qed




text \<open>
  Claim C5, as amended. Let the label of a fuel type occur in the lower-cased text, let
  the 100 characters from its first occurrence not contain \<^verbatim>\<open>aed\<close>, and let \<open>m\<close> be the
  first match of digits, separator, digits in them. Then \<^verbatim>\<open>float\<close> reads \<open>m\<close>, its comma
  replaced by a point, as a value \<open>v\<close>; when \<open>v\<close> is not zero the report holds \<open>v\<close> under
  the mapped code, and when \<open>v\<close> is zero the mapped code is not a key of the price list.
\<close>
theorem fallback_number_is_recorded:
  assumes "(label, code) \<in> set FUEL_TYPE_MAPPING"
    and "py_find (py_lower article_text) label = int p"
    and "\<not> py_in ''aed'' (take 100 (drop p (py_lower article_text)))"
    and "first_match (take 100 (drop p (py_lower article_text))) = Some m"
  shows "\<exists>v. py_float (py_replace m (CHR '','') ''.'') = Inr v
           \<and> (if v \<noteq> 0
               then (\<exists>r. extract_fuel_prices now article_text = Some r
                        \<and> map_of (prices r) code = Some v)
               else code \<notin> fst ` set (extract_prices article_text))"
proof -
  from first_match_is_match[OF assms(4)] obtain v
    where v: "py_float (py_replace m (CHR '','') ''.'') = Inr v"
    using match_float by blast
  with assms(3,4) have f: "find_price (py_lower article_text) label = Inr (Some v)"
    by (simp add: find_price_window[OF assms(2)] regex_price_first_match)
  show ?thesis
  proof (cases "v = 0")
    case True
    with extract_prices_lookup[OF assms(1), of article_text] f
    have "map_of (extract_prices article_text) code = None" by simp
    then have "code \<notin> fst ` set (extract_prices article_text)"
      by (simp add: map_of_eq_None_iff)
    with v True show ?thesis by simp
  next
    case False
    with extract_prices_lookup[OF assms(1), of article_text] f
    have m: "map_of (extract_prices article_text) code = Some v" by simp
    then have "extract_prices article_text \<noteq> []" by auto
    with m v False show ?thesis by (simp add: extract_fuel_prices_Some)
  qed
qed

theorem fallback_number_is_recorded_witness:
  "py_find (py_lower ''Diesel: 2,80 dirhams'') ''diesel'' = 0
   \<and> \<not> py_in ''aed'' (take 100 (drop 0 (py_lower ''Diesel: 2,80 dirhams'')))
   \<and> first_match (take 100 (drop 0 (py_lower ''Diesel: 2,80 dirhams''))) = Some ''2,80''
   \<and> py_float (py_replace ''2,80'' (CHR '','') ''.'') = Inr (14 / 5)
   \<and> (\<exists>r. extract_fuel_prices ''2024-07-01'' ''Diesel: 2,80 dirhams'' = Some r
          \<and> map_of (prices r) ''DIESEL'' = Some (14 / 5))"
proof -
  have a: "(''diesel'', ''DIESEL'') \<in> set FUEL_TYPE_MAPPING"
    by (simp add: FUEL_TYPE_MAPPING_def)
  have b: "py_find (py_lower ''Diesel: 2,80 dirhams'') ''diesel'' = int 0"
    by code_simp
  have c: "\<not> py_in ''aed'' (take 100 (drop 0 (py_lower ''Diesel: 2,80 dirhams'')))"
    by code_simp
  have d: "first_match (take 100 (drop 0 (py_lower ''Diesel: 2,80 dirhams''))) = Some ''2,80''"
    by code_simp
  have e: "py_float (py_replace ''2,80'' (CHR '','') ''.'') = Inr (14 / 5)"
    by code_simp
  from fallback_number_is_recorded[OF a b c d, of "''2024-07-01''"] e
  have "\<exists>r. extract_fuel_prices ''2024-07-01'' ''Diesel: 2,80 dirhams'' = Some r
          \<and> map_of (prices r) ''DIESEL'' = Some (14 / 5)"
    by auto
  with b c d e show ?thesis by simp
qed

text \<open>The claim as stated fails for the value zero: the window of \<^verbatim>\<open>diesel\<close> has no
  \<^verbatim>\<open>aed\<close>, its first match is \<^verbatim>\<open>0.00\<close>, and no report is returned.\<close>

theorem fallback_number_is_recorded_counterexample:
  "(''diesel'', ''DIESEL'') \<in> set FUEL_TYPE_MAPPING
   \<and> py_find (py_lower ''Diesel: 0.00 dirhams'') ''diesel'' = 0
   \<and> \<not> py_in ''aed'' (take 100 (drop 0 (py_lower ''Diesel: 0.00 dirhams'')))
   \<and> first_match (take 100 (drop 0 (py_lower ''Diesel: 0.00 dirhams''))) = Some ''0.00''
   \<and> py_float (py_replace ''0.00'' (CHR '','') ''.'') = Inr 0
   \<and> extract_fuel_prices ''2024-07-01'' ''Diesel: 0.00 dirhams'' = None"
proof -
  have "(''diesel'', ''DIESEL'') \<in> set FUEL_TYPE_MAPPING"
    by (simp add: FUEL_TYPE_MAPPING_def)
  moreover have "py_find (py_lower ''Diesel: 0.00 dirhams'') ''diesel'' = 0"
    by code_simp
  moreover have "\<not> py_in ''aed'' (take 100 (drop 0 (py_lower ''Diesel: 0.00 dirhams'')))"
    by code_simp
  moreover have "first_match (take 100 (drop 0 (py_lower ''Diesel: 0.00 dirhams''))) = Some ''0.00''"
    by code_simp
  moreover have "py_float (py_replace ''0.00'' (CHR '','') ''.'') = Inr 0"
    by code_simp
  moreover have "extract_fuel_prices ''2024-07-01'' ''Diesel: 0.00 dirhams'' = None"
    by code_simp
  ultimately show ?thesis by blast
qed

text \<open>
  Claim C6. Let the label of a fuel type occur in the lower-cased text, and let the 100
  characters from its first occurrence hold neither \<^verbatim>\<open>aed\<close> with a number after it (so
  \<^verbatim>\<open>aed\<close> is not there, or no word of the seven characters after the first one is a
  numeral) nor a match of digits, separator, digits. Then the mapped code is not a key
  of the price list, nor of the price list of a returned report: there is no entry for
  it, with whatever value.
\<close>
theorem no_pattern_no_entry:
  assumes "(label, code) \<in> set FUEL_TYPE_MAPPING"
    and "py_find (py_lower article_text) label = int p"
    and "\<not> aed_number (take 100 (drop p (py_lower article_text)))"
    and "first_match (take 100 (drop p (py_lower article_text))) = None"
  shows "code \<notin> fst ` set (extract_prices article_text)
       \<and> map_of (extract_prices article_text) code = None
       \<and> (\<forall>r. extract_fuel_prices now article_text = Some r \<longrightarrow> code \<notin> fst ` set (prices r))"
proof -
  from find_price_no_pattern[OF assms(2) assms(3) assms(4)]
    extract_prices_lookup[OF assms(1), of article_text]
  have m: "map_of (extract_prices article_text) code = None" by auto
  then have "code \<notin> fst ` set (extract_prices article_text)"
    by (simp add: map_of_eq_None_iff)
  with m show ?thesis by (auto simp: extract_fuel_prices_Some)
qed

theorem no_pattern_no_entry_witness:
  "py_find (py_lower ''Special 95 AED 2.72 diesel AED unchanged'') ''diesel'' = 20
   \<and> take 100 (drop 20 (py_lower ''Special 95 AED 2.72 diesel AED unchanged''))
       = ''diesel aed unchanged''
   \<and> py_in ''aed'' (take 100 (drop 20 (py_lower ''Special 95 AED 2.72 diesel AED unchanged'')))
   \<and> \<not> aed_number (take 100 (drop 20 (py_lower ''Special 95 AED 2.72 diesel AED unchanged'')))
   \<and> first_match (take 100 (drop 20 (py_lower ''Special 95 AED 2.72 diesel AED unchanged''))) = None
   \<and> ''DIESEL'' \<notin> fst ` set (extract_prices ''Special 95 AED 2.72 diesel AED unchanged'')
   \<and> extract_prices ''Special 95 AED 2.72 diesel AED unchanged'' = [(''PETROL'', 68 / 25)]
   \<and> \<not> py_in ''aed'' (take 100 (drop 0 (py_lower ''Diesel unchanged'')))
   \<and> ''DIESEL'' \<notin> fst ` set (extract_prices ''Diesel unchanged'')"
proof -
  have a: "(''diesel'', ''DIESEL'') \<in> set FUEL_TYPE_MAPPING"
    by (simp add: FUEL_TYPE_MAPPING_def)
  have b: "py_find (py_lower ''Special 95 AED 2.72 diesel AED unchanged'') ''diesel'' = int 20"
    by code_simp
  have w: "take 100 (drop 20 (py_lower ''Special 95 AED 2.72 diesel AED unchanged''))
       = ''diesel aed unchanged''"
    by code_simp
  have i: "py_in ''aed'' (take 100 (drop 20 (py_lower ''Special 95 AED 2.72 diesel AED unchanged'')))"
    by code_simp
  have c: "\<not> aed_number (take 100 (drop 20 (py_lower ''Special 95 AED 2.72 diesel AED unchanged'')))"
    by code_simp
  have d: "first_match (take 100 (drop 20 (py_lower ''Special 95 AED 2.72 diesel AED unchanged''))) = None"
    by code_simp
  have e: "extract_prices ''Special 95 AED 2.72 diesel AED unchanged'' = [(''PETROL'', 68 / 25)]"
    by code_simp
  from no_pattern_no_entry[OF a b c d, of "''2024-07-01''"]
  have f: "''DIESEL'' \<notin> fst ` set (extract_prices ''Special 95 AED 2.72 diesel AED unchanged'')"
    by blast
  have b': "py_find (py_lower ''Special 95 AED 2.72 diesel AED unchanged'') ''diesel'' = 20"
    using b by simp
  have g: "py_find (py_lower ''Diesel unchanged'') ''diesel'' = int 0"
    by code_simp
  have h: "\<not> py_in ''aed'' (take 100 (drop 0 (py_lower ''Diesel unchanged'')))"
    by code_simp
  have j: "first_match (take 100 (drop 0 (py_lower ''Diesel unchanged''))) = None"
    by code_simp
  from no_pattern_no_entry[OF a g no_aed_no_number[OF h] j, of "''2024-07-01''"]
  have k: "''DIESEL'' \<notin> fst ` set (extract_prices ''Diesel unchanged'')"
    by blast
  from b' w i c d e f h k show ?thesis by blast
qed

end
